theory Spec2Isabelle
  imports Complex_Main "HOL-Library.Sublist" "HOL-Library.AList"
begin

section \<open>Python strings\<close>

text \<open>
  A Python \<open>str\<close> is modelled as a \<open>string\<close> whose characters stand for the code points
  below 256 (ASCII and Latin-1). On these code points \<open>str.lower\<close> works character by
  character: the upper-case letters are \<open>A\<close>..\<open>Z\<close> (65..90) and \<open>0xC0\<close>..\<open>0xDE\<close> without the
  multiplication sign \<open>0xD7\<close>, and the lower-case letter is 32 code points further. Bit 5
  (value 32) of every such upper-case code point is clear, so adding 32 is setting that bit.
\<close>

definition is_upper :: "char \<Rightarrow> bool" where
  "is_upper c = (let n = (of_char c :: nat) in
     (65 \<le> n \<and> n \<le> 90) \<or> (192 \<le> n \<and> n \<le> 222 \<and> n \<noteq> 215))"

fun set_bit5 :: "char \<Rightarrow> char" where
  "set_bit5 (Char b0 b1 b2 b3 b4 b5 b6 b7) = Char b0 b1 b2 b3 b4 True b6 b7"

definition lower_char :: "char \<Rightarrow> char" where
  "lower_char c = (if is_upper c then set_bit5 c else c)"

definition lower :: "string \<Rightarrow> string" where
  "lower s = map lower_char s"

text \<open>\<open>sub in s\<close> on strings: \<open>sub\<close> occurs in \<open>s\<close> as a contiguous run.\<close>

fun str_in :: "string \<Rightarrow> string \<Rightarrow> bool" where
  "str_in sub [] = (sub = [])"
| "str_in sub (c # cs) = (prefix sub (c # cs) \<or> str_in sub cs)"

definition startswith :: "string \<Rightarrow> string \<Rightarrow> bool" where
  "startswith s p = prefix p s"

text \<open>
  \<open>str.isspace\<close> on the code points below 256: tab, line feed, vertical tab, form feed,
  carriage return, the separators \<open>0x1C\<close>..\<open>0x1F\<close>, space, \<open>0x85\<close> and \<open>0xA0\<close>.
  \<open>str.strip()\<close> removes the leading and the trailing run of such characters.
\<close>

definition isspace :: "char \<Rightarrow> bool" where
  "isspace c = (c \<in> set [CHR 0x09, CHR 0x0A, CHR 0x0B, CHR 0x0C, CHR 0x0D,
                          CHR 0x1C, CHR 0x1D, CHR 0x1E, CHR 0x1F, CHR 0x20,
                          CHR 0x85, CHR 0xA0])"

definition strip :: "string \<Rightarrow> string" where
  "strip s = rev (dropWhile isspace (rev (dropWhile isspace s)))"

text \<open>\<open>sep.join(xs)\<close>.\<close>

fun join :: "string \<Rightarrow> string list \<Rightarrow> string" where
  "join sep [] = []"
| "join sep [x] = x"
| "join sep (x # y # ys) = x @ sep @ join sep (y # ys)"

text \<open>
  \<open>s.replace(old, new)\<close> replaces every occurrence of \<open>old\<close>, found from left to right
  without overlap. \<open>replace_from k\<close> first skips \<open>k\<close> characters, the rest of an occurrence
  that was just replaced. For an empty \<open>old\<close> Python puts \<open>new\<close> before every character and
  at the end.
\<close>

fun replace_from :: "nat \<Rightarrow> string \<Rightarrow> string \<Rightarrow> string \<Rightarrow> string" where
  "replace_from k old new [] = []"
| "replace_from (Suc k) old new (c # cs) = replace_from k old new cs"
| "replace_from 0 old new (c # cs) =
     (if prefix old (c # cs) then new @ replace_from (length old - 1) old new cs
      else c # replace_from 0 old new cs)"

definition replace :: "string \<Rightarrow> string \<Rightarrow> string \<Rightarrow> string" where
  "replace s old new =
     (if old = [] then new @ concat (map (\<lambda>c. c # new) s) else replace_from 0 old new s)"

section \<open>Values of a loaded JSON document\<close>

text \<open>
  The values stored under an alias key are lists of strings for the product, operating
  system, HTTP method, provider and resource categories and single strings for the time and
  quantity categories and for the metadata. A \<open>for\<close> loop over a list visits its
  elements; over a string it visits its characters, each as a string of length one.
\<close>

datatype jvalue = JList "string list" | JStr string

fun iterate :: "jvalue \<Rightarrow> string list" where
  "iterate (JList ts) = ts"
| "iterate (JStr s) = map (\<lambda>c. [c]) s"

text \<open>
  A \<open>dict\<close> is an association list in insertion order: \<open>map_of\<close> reads a key,
  \<open>AList.update\<close> assigns it (in place when the key is there, at the end otherwise).
\<close>

type_synonym aliases = "(string \<times> jvalue) list"
type_synonym config = "(string \<times> aliases) list"

section \<open>UniversalAliasMapper (product_aliases.py)\<close>

text \<open>
  What the configuration path holds: nothing, a file that \<open>open\<close> or \<open>json.load\<close> fails
  on, or a document. \<open>writable\<close> says whether \<open>open(path, 'w')\<close> succeeds.
\<close>

datatype source = Missing | Unreadable | Document config

record filesystem =
  stored :: source
  writable :: bool

record mapper =
  aliases_config :: config
  product_to_aliases :: "string \<rightharpoonup> string set"

datatype load_error = FileNotFoundError | LoadException

text \<open>The body of the \<open>try\<close> block of \<open>_load_aliases_config\<close>.\<close>

fun load_attempt :: "source \<Rightarrow> load_error + config" where
  "load_attempt Missing = Inl FileNotFoundError"
| "load_attempt Unreadable = Inl LoadException"
| "load_attempt (Document c) = Inr c"

definition fallback_config :: config where
  "fallback_config =
     [(''product_aliases'', []), (''os_aliases'', []), (''http_method_aliases'', []),
      (''provider_aliases'', []), (''resource_aliases'', []), (''time_aliases'', []),
      (''quantity_aliases'', []), (''comparison_aliases'', [])]"

text \<open>
  \<open>_load_aliases_config\<close>: \<open>except Exception\<close> catches every error of the body, the
  missing file included, and assigns the empty configuration. The result is \<open>Inr\<close> of the
  configuration now held; \<open>Inl\<close> would be an exception that leaves the method. The
  messages that the method prints are not modelled.
\<close>

definition required_sections :: "string list" where
  "required_sections = [''product_aliases'', ''os_aliases'', ''http_method_aliases'']"

definition load_aliases_config :: "source \<Rightarrow> load_error + config" where
  "load_aliases_config src =
     (case load_attempt src of Inl e \<Rightarrow> Inr fallback_config | Inr c \<Rightarrow> Inr c)"

definition get_aliases_for_category :: "config \<Rightarrow> string \<Rightarrow> aliases" where
  "get_aliases_for_category cfg category =
     (case map_of cfg category of None \<Rightarrow> [] | Some al \<Rightarrow> al)"

text \<open>
  \<open>if product not in index: index[product] = set()\<close> followed by
  \<open>index[product].add(alias)\<close>.
\<close>

definition index_add :: "string \<Rightarrow> (string \<rightharpoonup> string set) \<Rightarrow> string \<Rightarrow> (string \<rightharpoonup> string set)" where
  "index_add alias idx product =
     idx(product \<mapsto> insert alias (case idx product of None \<Rightarrow> {} | Some S \<Rightarrow> S))"

text \<open>\<open>index.get(product, set())\<close>.\<close>

definition index_get :: "(string \<rightharpoonup> string set) \<Rightarrow> string \<Rightarrow> string set" where
  "index_get idx p = (case idx p of None \<Rightarrow> {} | Some S \<Rightarrow> S)"

definition build_reverse_mappings :: "config \<Rightarrow> (string \<rightharpoonup> string set) \<Rightarrow> (string \<rightharpoonup> string set)" where
  "build_reverse_mappings cfg idx =
     foldl (\<lambda>i (alias, products). foldl (index_add alias) i (iterate products))
       idx (get_aliases_for_category cfg ''product_aliases'')"

definition init :: "filesystem \<Rightarrow> load_error + mapper" where
  "init fs =
     (case load_aliases_config (stored fs) of
        Inl e \<Rightarrow> Inl e
      | Inr cfg \<Rightarrow>
          Inr \<lparr>aliases_config = cfg,
               product_to_aliases = build_reverse_mappings cfg Map.empty\<rparr>)"

definition get_aliases_for_product :: "mapper \<Rightarrow> string \<Rightarrow> string set" where
  "get_aliases_for_product m product =
     (case product_to_aliases m product of None \<Rightarrow> {} | Some S \<Rightarrow> S)"

text \<open>\<open>if category not in config: config[category] = {}\<close>.\<close>

definition ensure_category :: "string \<Rightarrow> config \<Rightarrow> config" where
  "ensure_category category cfg =
     (if category \<in> fst ` set cfg then cfg else AList.update category [] cfg)"

text \<open>
  \<open>save_config\<close>: the metadata is stamped before the file is opened, so the stamp stays in
  memory when the write fails; the failure itself is caught and printed.
\<close>

definition save_config :: "mapper \<Rightarrow> filesystem \<Rightarrow> mapper \<times> filesystem" where
  "save_config m fs =
     (let cfg = AList.map_entry ''_metadata''
                  (AList.update ''last_updated'' (JStr ''2025-08-28''))
                  (ensure_category ''_metadata'' (aliases_config m));
          m' = m\<lparr>aliases_config := cfg\<rparr>
      in if writable fs then (m', fs\<lparr>stored := Document cfg\<rparr>) else (m', fs))"

definition add_alias ::
  "string \<Rightarrow> string \<Rightarrow> string list \<Rightarrow> bool \<Rightarrow> mapper \<Rightarrow> filesystem \<Rightarrow> mapper \<times> filesystem" where
  "add_alias category alias targets save_to_file m fs =
     (let cfg = AList.map_entry category (AList.update (lower alias) (JList targets))
                  (ensure_category category (aliases_config m));
          idx = (if category = ''product_aliases''
                 then foldl (index_add (lower alias)) (product_to_aliases m) targets
                 else product_to_aliases m);
          m' = \<lparr>aliases_config = cfg, product_to_aliases = idx\<rparr>
      in if save_to_file then save_config m' fs else (m', fs))"

text \<open>
  \<open>find_products_by_query\<close> and \<open>find_matches_by_category\<close> collect into a \<open>set\<close> and
  return \<open>list(set)\<close>, whose order Python leaves open: the result is modelled as the set.
  Each \<open>for\<close> loop is a left fold over the list (or the items of the dict) it visits.
\<close>

definition direct_matches :: "string \<Rightarrow> string list \<Rightarrow> string set" where
  "direct_matches query_text available_products =
     foldl (\<lambda>matched product.
              if str_in (lower product) (lower query_text) then insert product matched
              else matched)
       {} available_products"

definition product_alias_matches :: "aliases \<Rightarrow> string \<Rightarrow> string list \<Rightarrow> string set" where
  "product_alias_matches product_aliases query_text available_products =
     foldl (\<lambda>matched (alias, products).
              if str_in (lower alias) (lower query_text)
              then foldl (\<lambda>matched' product.
                            if product \<in> set available_products then insert product matched'
                            else matched')
                     matched (iterate products)
              else matched)
       {} product_aliases"

definition find_products_by_query :: "mapper \<Rightarrow> string \<Rightarrow> string list \<Rightarrow> string set" where
  "find_products_by_query m query_text available_products =
     (let matched_products = direct_matches query_text available_products
      in if matched_products = {}
         then product_alias_matches
                (get_aliases_for_category (aliases_config m) ''product_aliases'')
                query_text available_products
         else matched_products)"

definition find_matches_by_category ::
  "mapper \<Rightarrow> string \<Rightarrow> string \<Rightarrow> string list option \<Rightarrow> string set" where
  "find_matches_by_category m query_text category available_values =
     foldl (\<lambda>matched (alias, targets).
              if str_in (lower alias) (lower query_text)
              then foldl (\<lambda>matched' target.
                            if (case available_values of None \<Rightarrow> True
                                | Some av \<Rightarrow> target \<in> set av)
                            then insert target matched' else matched')
                     matched (iterate targets)
              else matched)
       {} (get_aliases_for_category (aliases_config m) category)"

section \<open>EnhancedAliasMapper (enhanced_aliases.py)\<close>

record enhanced_mapper =
  product_aliases :: aliases
  os_aliases :: aliases
  http_method_aliases :: aliases
  provider_aliases :: aliases
  resource_aliases :: aliases
  time_aliases :: aliases
  quantity_aliases :: aliases

text \<open>The tables that \<open>__init__\<close> assigns.\<close>

definition builtin_product_aliases :: aliases where
  "builtin_product_aliases =
     [(''js'', JList [''JavaScript'', ''JavaScript (Node.JS)'', ''JavaScript RLC'']),
      (''javascript'', JList [''JavaScript'', ''JavaScript (Node.JS)'', ''JavaScript RLC'']),
      (''node'', JList [''JavaScript (Node.JS)'']),
      (''nodejs'', JList [''JavaScript (Node.JS)'']),
      (''node.js'', JList [''JavaScript (Node.JS)'']),
      (''rlc'', JList [''JavaScript RLC'']),
      (''rest'', JList [''JavaScript RLC'']),
      (''.net'', JList [''.Net Code-gen'', ''.Net Fluent'']),
      (''dotnet'', JList [''.Net Code-gen'', ''.Net Fluent'']),
      (''csharp'', JList [''.Net Code-gen'', ''.Net Fluent'']),
      (''c#'', JList [''.Net Code-gen'', ''.Net Fluent'']),
      (''net'', JList [''.Net Code-gen'', ''.Net Fluent'']),
      (''cs'', JList [''.Net Code-gen'', ''.Net Fluent'']),
      (''java'', JList [''Java Fluent Lite'', ''Java Fluent Premium'']),
      (''jdk'', JList [''Java Fluent Lite'', ''Java Fluent Premium'']),
      (''python'', JList [''Python-SDK'']),
      (''py'', JList [''Python-SDK'']),
      (''python3'', JList [''Python-SDK'']),
      (''pip'', JList [''Python-SDK'']),
      (''go'', JList [''Go-SDK'']),
      (''golang'', JList [''Go-SDK'']),
      (''gopher'', JList [''Go-SDK'']),
      (''php'', JList [''PHP-SDK'']),
      (''ruby'', JList [''Ruby-SDK'']),
      (''rb'', JList [''Ruby-SDK'']),
      (''rust'', JList [''Rust'']),
      (''rs'', JList [''Rust'']),
      (''rustlang'', JList [''Rust'']),
      (''cli'', JList [''AzureCLI'']),
      (''azure-cli'', JList [''AzureCLI'']),
      (''az'', JList [''AzureCLI'']),
      (''command-line'', JList [''AzureCLI'']),
      (''powershell'', JList [''AzurePowershell'']),
      (''ps'', JList [''AzurePowershell'']),
      (''pwsh'', JList [''AzurePowershell'']),
      (''ps1'', JList [''AzurePowershell'']),
      (''terraform'', JList [''Terraform'']),
      (''tf'', JList [''Terraform'']),
      (''hcl'', JList [''Terraform'']),
      (''ansible'', JList [''Ansible'']),
      (''playbook'', JList [''Ansible'']),
      (''vscode'', JList [''VS Code Azure Extension'']),
      (''vs-code'', JList [''VS Code Azure Extension'']),
      (''visual-studio-code'', JList [''VS Code Azure Extension'']),
      (''code'', JList [''VS Code Azure Extension''])]"

definition builtin_os_aliases :: aliases where
  "builtin_os_aliases =
     [(''windows'', JList [''Windows'']),
      (''win'', JList [''Windows'']),
      (''microsoft'', JList [''Windows'']),
      (''ms'', JList [''Windows'']),
      (''win10'', JList [''Windows'']),
      (''win11'', JList [''Windows'']),
      (''linux'', JList [''Linux'']),
      (''ubuntu'', JList [''Linux'']),
      (''debian'', JList [''Linux'']),
      (''centos'', JList [''Linux'']),
      (''rhel'', JList [''Linux'']),
      (''redhat'', JList [''Linux'']),
      (''fedora'', JList [''Linux'']),
      (''suse'', JList [''Linux'']),
      (''unix'', JList [''Linux'']),
      (''macos'', JList [''macOS'']),
      (''mac'', JList [''macOS'']),
      (''osx'', JList [''macOS'']),
      (''apple'', JList [''macOS'']),
      (''darwin'', JList [''macOS''])]"

definition builtin_http_method_aliases :: aliases where
  "builtin_http_method_aliases =
     [(''get'', JList [''GET'']),
      (''read'', JList [''GET'']),
      (''fetch'', JList [''GET'']),
      (''retrieve'', JList [''GET'']),
      (''query'', JList [''GET'']),
      (''post'', JList [''POST'']),
      (''create'', JList [''POST'']),
      (''add'', JList [''POST'']),
      (''insert'', JList [''POST'']),
      (''new'', JList [''POST'']),
      (''put'', JList [''PUT'']),
      (''update'', JList [''PUT'']),
      (''modify'', JList [''PUT'']),
      (''change'', JList [''PUT'']),
      (''edit'', JList [''PUT'']),
      (''delete'', JList [''DELETE'']),
      (''remove'', JList [''DELETE'']),
      (''del'', JList [''DELETE'']),
      (''destroy'', JList [''DELETE'']),
      (''patch'', JList [''PATCH'']),
      (''partial'', JList [''PATCH''])]"

definition builtin_provider_aliases :: aliases where
  "builtin_provider_aliases =
     [(''compute'', JList [''Microsoft.Compute'']),
      (''vm'', JList [''Microsoft.Compute'']),
      (''virtual-machine'', JList [''Microsoft.Compute'']),
      (''server'', JList [''Microsoft.Compute'']),
      (''storage'', JList [''Microsoft.Storage'']),
      (''blob'', JList [''Microsoft.Storage'']),
      (''file'', JList [''Microsoft.Storage'']),
      (''disk'', JList [''Microsoft.Storage'']),
      (''network'', JList [''Microsoft.Network'']),
      (''networking'', JList [''Microsoft.Network'']),
      (''vnet'', JList [''Microsoft.Network'']),
      (''subnet'', JList [''Microsoft.Network'']),
      (''nsg'', JList [''Microsoft.Network'']),
      (''web'', JList [''Microsoft.Web'']),
      (''webapp'', JList [''Microsoft.Web'']),
      (''app-service'', JList [''Microsoft.Web'']),
      (''website'', JList [''Microsoft.Web'']),
      (''sql'', JList [''Microsoft.Sql'']),
      (''database'', JList [''Microsoft.Sql'']),
      (''db'', JList [''Microsoft.Sql'']),
      (''mysql'', JList [''Microsoft.DBforMySQL'']),
      (''postgresql'', JList [''Microsoft.DBforPostgreSQL'']),
      (''cosmos'', JList [''Microsoft.DocumentDB'']),
      (''cosmosdb'', JList [''Microsoft.DocumentDB'']),
      (''container'', JList [''Microsoft.ContainerService'']),
      (''aks'', JList [''Microsoft.ContainerService'']),
      (''kubernetes'', JList [''Microsoft.ContainerService'']),
      (''k8s'', JList [''Microsoft.ContainerService'']),
      (''keyvault'', JList [''Microsoft.KeyVault'']),
      (''vault'', JList [''Microsoft.KeyVault'']),
      (''secret'', JList [''Microsoft.KeyVault'']),
      (''certificate'', JList [''Microsoft.KeyVault''])]"

definition builtin_resource_aliases :: aliases where
  "builtin_resource_aliases =
     [(''vm'', JList [''virtualMachines'']),
      (''virtual-machine'', JList [''virtualMachines'']),
      (''server'', JList [''virtualMachines'']),
      (''instance'', JList [''virtualMachines'']),
      (''storage-account'', JList [''storageAccounts'']),
      (''blob'', JList [''storageAccounts'']),
      (''storage'', JList [''storageAccounts'']),
      (''vnet'', JList [''virtualNetworks'']),
      (''virtual-network'', JList [''virtualNetworks'']),
      (''network'', JList [''virtualNetworks'']),
      (''subnet'', JList [''subnets'']),
      (''nsg'', JList [''networkSecurityGroups'']),
      (''security-group'', JList [''networkSecurityGroups'']),
      (''webapp'', JList [''webApps'']),
      (''web-app'', JList [''webApps'']),
      (''app-service'', JList [''webApps'']),
      (''website'', JList [''webApps'']),
      (''sql-server'', JList [''sqlServers'']),
      (''database'', JList [''databases'']),
      (''db'', JList [''databases'']),
      (''aks'', JList [''kubernetesClusters'']),
      (''kubernetes'', JList [''kubernetesClusters'']),
      (''k8s'', JList [''kubernetesClusters'']),
      (''cluster'', JList [''kubernetesClusters'']),
      (''keyvault'', JList [''keyVaults'']),
      (''vault'', JList [''keyVaults''])]"

definition builtin_time_aliases :: aliases where
  "builtin_time_aliases =
     [(''today'', JStr ''2025-08-28''),
      (''this-month'', JStr ''2025-08''),
      (''current-month'', JStr ''2025-08''),
      (''last-month'', JStr ''2025-07''),
      (''previous-month'', JStr ''2025-07''),
      (''this-year'', JStr ''2025''),
      (''current-year'', JStr ''2025''),
      (''last-year'', JStr ''2024''),
      (''previous-year'', JStr ''2024''),
      (''recent'', JStr ''ORDER BY Month DESC''),
      (''latest'', JStr ''ORDER BY Month DESC''),
      (''newest'', JStr ''ORDER BY Month DESC''),
      (''oldest'', JStr ''ORDER BY Month ASC''),
      (''earliest'', JStr ''ORDER BY Month ASC'')]"

definition builtin_quantity_aliases :: aliases where
  "builtin_quantity_aliases =
     [(''top'', JStr ''TOP''),
      (''first'', JStr ''TOP''),
      (''limit'', JStr ''TOP''),
      (''most'', JStr ''ORDER BY [count_column] DESC''),
      (''highest'', JStr ''ORDER BY [count_column] DESC''),
      (''maximum'', JStr ''ORDER BY [count_column] DESC''),
      (''least'', JStr ''ORDER BY [count_column] ASC''),
      (''lowest'', JStr ''ORDER BY [count_column] ASC''),
      (''minimum'', JStr ''ORDER BY [count_column] ASC''),
      (''total'', JStr ''SUM([count_column])''),
      (''sum'', JStr ''SUM([count_column])''),
      (''count'', JStr ''COUNT(*)''),
      (''number'', JStr ''COUNT(*)''),
      (''average'', JStr ''AVG([count_column])''),
      (''avg'', JStr ''AVG([count_column])'')]"

definition enhanced_init :: enhanced_mapper where
  "enhanced_init =
     \<lparr>product_aliases = builtin_product_aliases, os_aliases = builtin_os_aliases,
      http_method_aliases = builtin_http_method_aliases,
      provider_aliases = builtin_provider_aliases,
      resource_aliases = builtin_resource_aliases, time_aliases = builtin_time_aliases,
      quantity_aliases = builtin_quantity_aliases\<rparr>"

text \<open>
  \<open>getattr(self, f'{category}_aliases', {})\<close>: the attributes of the object whose names end
  in \<open>_aliases\<close> are the seven tables and the method \<open>get_all_aliases\<close>; any other name gives
  the default, the empty dict. A bound method has no \<open>items\<close>, so the loop over it raises.
\<close>

datatype attribute = Table aliases | BoundMethod

definition getattr_aliases :: "enhanced_mapper \<Rightarrow> string \<Rightarrow> attribute" where
  "getattr_aliases self category =
     (let name = category @ ''_aliases'' in
      if name = ''product_aliases'' then Table (product_aliases self)
      else if name = ''os_aliases'' then Table (os_aliases self)
      else if name = ''http_method_aliases'' then Table (http_method_aliases self)
      else if name = ''provider_aliases'' then Table (provider_aliases self)
      else if name = ''resource_aliases'' then Table (resource_aliases self)
      else if name = ''time_aliases'' then Table (time_aliases self)
      else if name = ''quantity_aliases'' then Table (quantity_aliases self)
      else if name = ''get_all_aliases'' then BoundMethod
      else Table [])"

datatype attribute_error = AttributeError

text \<open>
  The list \<open>matches\<close> is extended by the targets of every alias found in the lower-cased
  text (the alias itself is taken as stored); \<open>list(set(matches))\<close> is modelled as the set.
\<close>

definition extend_matches :: "aliases \<Rightarrow> string \<Rightarrow> string list" where
  "extend_matches alias_map text =
     foldl (\<lambda>matches (alias, targets).
              if str_in alias (lower text) then matches @ iterate targets else matches)
       [] alias_map"

definition find_matches :: "enhanced_mapper \<Rightarrow> string \<Rightarrow> string \<Rightarrow> attribute_error + string set" where
  "find_matches self text category =
     (case getattr_aliases self category of
        BoundMethod \<Rightarrow> Inl AttributeError
      | Table alias_map \<Rightarrow> Inr (set (extend_matches alias_map text)))"

section \<open>SimpleMCPTools (simple_mcp_tools.py)\<close>

text \<open>
  The SQL client is a collaborator: a function from the query string to the exception text
  it raises (\<open>Inl\<close>) or the columns and rows it returns. A missing \<open>rows\<close> or \<open>columns\<close>
  key reads as the empty list, as \<open>.get(key, [])\<close> does.
\<close>

record 'v query_result =
  result_columns :: "string list"
  result_rows :: "'v list list"

type_synonym 'v sql_client = "string \<Rightarrow> string + 'v query_result"

datatype 'v tool_result =
    Error string
  | Failed string string
  | Success string "(string \<times> 'v) list list" nat "string list"

text \<open>\<open>str(i)\<close> of a natural number, for \<open>f"column_{i}"\<close>.\<close>

definition digit_char :: "nat \<Rightarrow> char" where
  "digit_char d = ''0123456789'' ! d"

fun str_nat :: "nat \<Rightarrow> string" where
  "str_nat n = (if n < 10 then [digit_char n] else str_nat (n div 10) @ [digit_char (n mod 10)])"

declare str_nat.simps [simp del]

definition format_row :: "string list \<Rightarrow> 'v list \<Rightarrow> (string \<times> 'v) list" where
  "format_row cols row =
     foldl (\<lambda>row_dict (i, v).
              AList.update (if i < length cols then cols ! i else ''column_'' @ str_nat i) v
                row_dict)
       [] (zip [0..<length row] row)"

definition dangerous_keywords :: "string list" where
  "dangerous_keywords =
     [''drop'', ''delete'', ''insert'', ''update'', ''create'', ''alter'', ''truncate'']"

text \<open>
  \<open>execute_sql_query_direct\<close> returns its result together with the list of the query
  strings that were handed to the SQL client during the call.
\<close>

definition execute_sql_query_direct ::
  "'v sql_client \<Rightarrow> string \<Rightarrow> 'v tool_result \<times> string list" where
  "execute_sql_query_direct execute_query_via_rest sql_query =
     (let sql_lower = strip (lower sql_query) in
      if \<not> startswith sql_lower ''select''
      then (Error ''Only SELECT queries are allowed'', [])
      else if list_ex (\<lambda>keyword. str_in keyword sql_lower) dangerous_keywords
      then (Error ''Query contains prohibited operations'', [])
      else (case execute_query_via_rest sql_query of
              Inl e \<Rightarrow> (Failed (''Error executing query: '' @ e) sql_query, [sql_query])
            | Inr query_result \<Rightarrow>
                (let result_data = map (format_row (result_columns query_result))
                                     (result_rows query_result)
                 in (Success sql_query result_data (length result_data)
                       (result_columns query_result), [sql_query]))))"

text \<open>
  \<open>suggest_query_structure\<close> assembles the SELECT string from the parts that the simple
  parser returned. The parser itself is a collaborator: it raises, returns a dict with an
  \<open>error\<close> key, or returns the parts.
\<close>

record query_parts =
  table_name :: string
  columns :: "string list"
  where_clause :: string
  order_clause :: string
  limit_clause :: string

definition suggested_sql :: "string \<Rightarrow> string list \<Rightarrow> string \<Rightarrow> string \<Rightarrow> string \<Rightarrow> string" where
  "suggested_sql table cols where_c order_c limit_c =
     (let columns_str = (if cols \<noteq> [] then join '', '' cols else ''*'');
          sql1 = ''SELECT '' @ columns_str @ '' FROM '' @ table;
          sql2 = (if where_c \<noteq> ''1=1'' then sql1 @ '' WHERE '' @ where_c else sql1);
          sql3 = (if order_c \<noteq> [] then sql2 @ '' '' @ order_c else sql2)
      in if limit_c \<noteq> [] then replace sql3 ''SELECT'' (''SELECT '' @ limit_c) else sql3)"

datatype parser_outcome = ParserRaises string | ParserError string | Parsed query_parts

record components =
  comp_table :: string
  comp_columns :: "string list"
  comp_filters :: "string option"
  comp_ordering :: "string option"
  comp_limit :: "string option"

datatype suggestion =
    Suggestions "string list"
  | Suggested string string components
  | SuggestError string

definition suggest_query_structure :: "parser_outcome \<Rightarrow> suggestion" where
  "suggest_query_structure outcome =
     (case outcome of
        ParserRaises e \<Rightarrow> SuggestError (''Error suggesting query: '' @ e)
      | ParserError e \<Rightarrow>
          Suggestions
            [''Try asking about specific tables: products, customers, usage'',
             ''Include time filters: 'this month', '2024-01'' @ [CHR 0x27],
             ''Ask for aggregations: 'top 10', 'count by month'' @ [CHR 0x27],
             ''Filter by specific values: 'Python SDK', 'Windows OS'' @ [CHR 0x27]]
      | Parsed p \<Rightarrow>
          Suggested
            (suggested_sql (table_name p) (columns p) (where_clause p) (order_clause p)
               (limit_clause p))
            ''This is a suggestion based on simple parsing. Agent can modify as needed.''
            \<lparr>comp_table = table_name p, comp_columns = columns p,
             comp_filters = (if where_clause p \<noteq> ''1=1'' then Some (where_clause p) else None),
             comp_ordering = (if order_clause p \<noteq> [] then Some (order_clause p) else None),
             comp_limit = (if limit_clause p \<noteq> [] then Some (limit_clause p) else None)\<rparr>)"

section \<open>AIQueryParser (ai_query_parser.py)\<close>

text \<open>
  The schema loader is a collaborator: \<open>get_enabled_tables()\<close> is a dict from table key to
  table information, in its enumeration order, and \<open>get_table_info(name)\<close> is the
  information of a table or \<open>None\<close>.
\<close>

record table_info =
  name :: string
  table_columns :: "string list"

record schema_loader =
  get_enabled_tables :: "(string \<times> table_info) list"
  get_table_info :: "string \<Rightarrow> table_info option"

text \<open>
  The value under \<open>confidence\<close> in the decoded reply: no such key, a finite number (a
  double or an integer, with its exact value), an infinity or NaN (which \<open>json.loads\<close>
  accepts), or a value that is not a number, on which \<open>>=\<close> raises \<open>TypeError\<close>.
\<close>

datatype confidence = NoConfidence | Number rat | PosInfinity | NegInfinity | NaN | NonNumeric

text \<open>
  The literal \<open>0.7\<close> is the double \<open>0x1.6666666666666p-1\<close>. Comparing two doubles compares
  their exact values. \<open>ai_result.get('confidence', 0) >= 0.7\<close>, with the \<open>TypeError\<close> of a
  value that is not a number caught by \<open>except Exception\<close> of the caller:
\<close>

definition threshold :: rat where
  "threshold = 3152519739159347 / 4503599627370496"

fun confidence_ok :: "confidence \<Rightarrow> bool" where
  "confidence_ok NoConfidence = (0 \<ge> threshold)"
| "confidence_ok (Number q) = (q \<ge> threshold)"
| "confidence_ok PosInfinity = True"
| "confidence_ok NegInfinity = False"
| "confidence_ok NaN = False"
| "confidence_ok NonNumeric = False"

text \<open>
  The JSON object of the reply: which of the keys it has, with their values. Keys that the
  parser never reads are left out.
\<close>

record ai_object =
  ai_error :: "string option"
  ai_table_name :: "string option"
  ai_columns :: "string list option"
  ai_where_clause :: "string option"
  ai_order_clause :: "string option"
  ai_limit_clause :: "string option"
  ai_confidence :: confidence

text \<open>
  The outcome of the request to the language model: the call raises, the reply is not
  JSON, the reply is JSON but not an object, or it is an object. On a reply that is not an
  object one of the checks fails or raises, whichever comes first, and the result is an
  error dict; \<open>NotAnObject\<close> carries its message.
\<close>

datatype ai_backend =
    TransportFailure string
  | InvalidJSON string
  | NotAnObject string
  | Object ai_object

datatype ai_result = AIError string | AIParsed ai_object string

definition parse_with_ai :: "bool \<Rightarrow> schema_loader \<Rightarrow> ai_backend \<Rightarrow> string \<Rightarrow> ai_result" where
  "parse_with_ai use_ai schema backend user_question =
     (if \<not> use_ai then AIError ''AI parsing not available''
      else case backend of
        TransportFailure e \<Rightarrow> AIError (''AI parsing failed: '' @ e)
      | InvalidJSON e \<Rightarrow> AIError (''AI returned invalid JSON: '' @ e)
      | NotAnObject e \<Rightarrow> AIError e
      | Object result \<Rightarrow>
          (case ai_table_name result of
             None \<Rightarrow> AIError ''AI response missing required field: table_name''
           | Some t \<Rightarrow>
          (case ai_columns result of
             None \<Rightarrow> AIError ''AI response missing required field: columns''
           | Some cs \<Rightarrow>
          (case ai_where_clause result of
             None \<Rightarrow> AIError ''AI response missing required field: where_clause''
           | Some w \<Rightarrow>
               if \<not> list_ex (\<lambda>(table_key, info). name info = t) (get_enabled_tables schema)
               then AIError (''AI suggested invalid table: '' @ t)
               else AIParsed
                      (result\<lparr>ai_where_clause :=
                                Some (if w = [] \<or> strip w = [] then ''1=1'' else w)\<rparr>)
                      user_question))))"

text \<open>
  The result of the rule-based parser: the error dict, or the parts with the two flags.
\<close>

record rule_result = query_parts +
  ai_parsed :: bool
  fallback_used :: bool

text \<open>
  \<open>re.search(r'top\s+(\d+)', text)\<close>: the leftmost position where \<open>top\<close>, at least one white
  space character and at least one decimal digit follow each other; group 1 is the whole
  run of digits there. On code points below 256 the decimal digits are \<open>0\<close>..\<open>9\<close>.
\<close>

definition isdigit :: "char \<Rightarrow> bool" where
  "isdigit c = (c \<in> set ''0123456789'')"

definition match_top :: "string \<Rightarrow> string option" where
  "match_top s =
     (if prefix ''top'' s
      then (let rest = drop 3 s;
                digits = takeWhile isdigit (dropWhile isspace rest)
            in if takeWhile isspace rest \<noteq> [] \<and> digits \<noteq> [] then Some digits else None)
      else None)"

fun search_top :: "string \<Rightarrow> string option" where
  "search_top [] = None"
| "search_top (c # cs) =
     (case match_top (c # cs) of Some digits \<Rightarrow> Some digits | None \<Rightarrow> search_top cs)"

definition this_month_clause :: string where
  "this_month_clause = ''Month LIKE '' @ [CHR 0x27] @ ''2025-08%'' @ [CHR 0x27]"

datatype parse_result = ParseFailed string | RuleBased rule_result | FromAI ai_object string

definition fallback_rule_based_parsing :: "schema_loader \<Rightarrow> string \<Rightarrow> parse_result" where
  "fallback_rule_based_parsing schema user_question =
     (case get_enabled_tables schema of
        [] \<Rightarrow> ParseFailed ''No enabled tables found''
      | (first_key, first_info) # others \<Rightarrow>
          (let query_lower = lower user_question;
               found = (if list_ex (\<lambda>keyword. str_in keyword query_lower)
                             [''product'', ''customer'', ''usage'']
                        then Some (name first_info) else None);
               table = (case found of
                          None \<Rightarrow> name first_info
                        | Some t \<Rightarrow> if t = [] then name first_info else t);
               cols = (case get_table_info schema table of
                         None \<Rightarrow> [''*'']
                       | Some info \<Rightarrow>
                           (let preferred = filter (\<lambda>col. col \<in> set (table_columns info))
                                              [''Month'', ''Product'', ''RequestCount'']
                            in if preferred = [] then take 3 (table_columns info)
                               else preferred));
               where_c = (if str_in ''this month'' query_lower then this_month_clause
                          else ''1=1'');
               order_c = (if str_in ''top'' query_lower then ''ORDER BY RequestCount DESC''
                          else []);
               limit_c = (case search_top query_lower of
                            None \<Rightarrow> []
                          | Some digits \<Rightarrow> ''TOP '' @ digits)
           in RuleBased \<lparr>table_name = table, columns = cols, where_clause = where_c,
                         order_clause = order_c, limit_clause = limit_c,
                         ai_parsed = False, fallback_used = True\<rparr>))"

text \<open>
  \<open>parse_user_query\<close>. \<open>run_raises\<close> says that \<open>asyncio.run\<close> itself raised; that and the
  \<open>TypeError\<close> of the comparison are caught, and the rule-based parser runs.
\<close>

definition ai_accepted :: "ai_result \<Rightarrow> bool" where
  "ai_accepted r =
     (case r of AIError e \<Rightarrow> False
      | AIParsed result q \<Rightarrow> ai_error result = None \<and> confidence_ok (ai_confidence result))"

definition parse_user_query ::
  "bool \<Rightarrow> bool \<Rightarrow> schema_loader \<Rightarrow> ai_backend \<Rightarrow> string \<Rightarrow> parse_result" where
  "parse_user_query use_ai run_raises schema backend user_question =
     (if use_ai \<and> \<not> run_raises
      then (case parse_with_ai use_ai schema backend user_question of
              AIError e \<Rightarrow> fallback_rule_based_parsing schema user_question
            | AIParsed result q \<Rightarrow>
                if ai_error result = None \<and> confidence_ok (ai_confidence result)
                then FromAI result q
                else fallback_rule_based_parsing schema user_question)
      else fallback_rule_based_parsing schema user_question)"

text \<open>The two provenance flags as the caller reads them off the returned dict.\<close>

fun result_ai_parsed :: "parse_result \<Rightarrow> bool option" where
  "result_ai_parsed (ParseFailed e) = None"
| "result_ai_parsed (RuleBased r) = Some (ai_parsed r)"
| "result_ai_parsed (FromAI result q) = Some True"

fun result_fallback_used :: "parse_result \<Rightarrow> bool option" where
  "result_fallback_used (ParseFailed e) = None"
| "result_fallback_used (RuleBased r) = Some (fallback_used r)"
| "result_fallback_used (FromAI result q) = None"

fun result_where_clause :: "parse_result \<Rightarrow> string option" where
  "result_where_clause (ParseFailed e) = None"
| "result_where_clause (RuleBased r) = Some (where_clause r)"
| "result_where_clause (FromAI result q) = ai_where_clause result"

section \<open>The WHERE clause in the specification's words\<close>

text \<open>
  The specification's wording of the rule-based WHERE clause, for comparison with the code:
  \<open>Month LIKE '<current-year>-<current-month>%'\<close>, built from the year and the month
  (two digits) of the date of the call.
\<close>

definition spec_month_clause :: "nat \<Rightarrow> nat \<Rightarrow> string" where
  "spec_month_clause year month =
     ''Month LIKE '' @ [CHR 0x27] @ str_nat year @ ''-''
       @ (if month < 10 then ''0'' else []) @ str_nat month @ ''%'' @ [CHR 0x27]"

section \<open>Example inputs\<close>

definition example_mapper :: mapper where
  "example_mapper =
     \<lparr>aliases_config = [(''product_aliases'',
         [(''js'', JList [''JavaScript'']), (''python'', JList [''Python-SDK'']),
          (''usage'', JList [''Java Fluent''])])], product_to_aliases = Map.empty\<rparr>"

definition example_products :: "string list" where
  "example_products = [''JavaScript'', ''Python-SDK'', ''Java Fluent'']"

definition java_document :: config where
  "java_document =
     [(''product_aliases'',
         [(''java'', JList [''Java Fluent Lite'']), (''javascript'', JList [''JavaScript''])])]"

definition js_document :: config where
  "js_document = [(''product_aliases'', [(''js'', JList [''JavaScript''])])]"

definition js_filesystem :: filesystem where
  "js_filesystem = \<lparr>stored = Document js_document, writable = True\<rparr>"

definition example_client :: "nat sql_client" where
  "example_client = (\<lambda>q. Inr \<lparr>result_columns = [''A''], result_rows = [[1], [2]]\<rparr>)"

definition usage_table :: table_info where
  "usage_table =
     \<lparr>name = ''ProductUsage'',
      table_columns = [''Month'', ''Product'', ''RequestCount'', ''SubscriptionCount'']\<rparr>"

definition example_schema :: schema_loader where
  "example_schema =
     \<lparr>get_enabled_tables = [(''usage'', usage_table)],
      get_table_info = (\<lambda>t. if t = ''ProductUsage'' then Some usage_table else None)\<rparr>"

definition empty_schema :: schema_loader where
  "empty_schema = \<lparr>get_enabled_tables = [], get_table_info = (\<lambda>t. None)\<rparr>"

definition example_reply :: "confidence \<Rightarrow> ai_object" where
  "example_reply c =
     \<lparr>ai_error = None, ai_table_name = Some ''ProductUsage'',
      ai_columns = Some [''Product'', ''RequestCount''], ai_where_clause = Some ''1=1'',
      ai_order_clause = Some ''ORDER BY RequestCount DESC'', ai_limit_clause = Some ''TOP 5'',
      ai_confidence = c\<rparr>"

section \<open>Properties of the string and dict operations\<close>

lemma str_in_sublist: "str_in sub s = sublist sub s"
  by (induction s) (auto simp: sublist_Cons_right)

lemma str_in_refl: "str_in s s"
  by (simp add: str_in_sublist)

lemma map_of_map_entry_same:
  "map_of (AList.map_entry k f al) k = map_option f (map_of al k)"
  by (induction al) auto

lemma map_entry_idem:
  "(\<And>v. f (f v) = f v) \<Longrightarrow> AList.map_entry k f (AList.map_entry k f al) = AList.map_entry k f al"
  by (induction al) auto

lemma keys_map_entry: "fst ` set (AList.map_entry k f al) = fst ` set al"
  by (induction al) auto

lemma keys_update: "fst ` set (AList.update k v al) = insert k (fst ` set al)"
  by (induction al) auto

lemma update_idem: "AList.update k v (AList.update k v al) = AList.update k v al"
  by (induction al) auto

lemma ensure_category_keys: "c \<in> fst ` set (ensure_category c cfg)"
  by (simp add: ensure_category_def keys_update)

lemma ensure_category_present: "c \<in> fst ` set cfg \<Longrightarrow> ensure_category c cfg = cfg"
  by (simp add: ensure_category_def)

lemma foldl_index_add:
  "foldl (index_add a) idx ts p =
     (if p \<in> set ts then Some (insert a (case idx p of None \<Rightarrow> {} | Some S \<Rightarrow> S)) else idx p)"
  by (induction ts arbitrary: idx) (auto simp: index_add_def)

lemma foldl_index_add_twice:
  "foldl (index_add a) (foldl (index_add a) idx ts) ts = foldl (index_add a) idx ts"
  by (rule ext) (simp add: foldl_index_add)

section \<open>add_alias: last write wins\<close>

lemma add_alias_no_save:
  "add_alias c a T False m fs =
     (\<lparr>aliases_config =
          AList.map_entry c (AList.update (lower a) (JList T)) (ensure_category c (aliases_config m)),
        product_to_aliases =
          (if c = ''product_aliases''
           then foldl (index_add (lower a)) (product_to_aliases m) T
           else product_to_aliases m)\<rparr>, fs)"
  by (simp add: add_alias_def Let_def)

lemma lookup_after_add:
  "map_of (get_aliases_for_category (aliases_config (fst (add_alias c a T False m fs))) c) (lower a)
     = Some (JList T)"
proof -
  let ?cfg1 = "ensure_category c (aliases_config m)"
  have "c \<in> fst ` set ?cfg1" by (rule ensure_category_keys)
  then obtain al where al: "map_of ?cfg1 c = Some al"
    by (metis (no_types, lifting) domD dom_map_of_conv_image_fst)
  show ?thesis
    unfolding add_alias_no_save get_aliases_for_category_def
    by (simp add: map_of_map_entry_same al AList.update_conv')
qed

lemma add_alias_twice:
  "add_alias c a T False (fst (add_alias c a T False m fs)) fs = add_alias c a T False m fs"
proof -
  let ?cfg1 = "ensure_category c (aliases_config m)"
  let ?f = "AList.update (lower a) (JList T)"
  have k: "c \<in> fst ` set (AList.map_entry c ?f ?cfg1)"
    by (simp only: keys_map_entry ensure_category_keys)
  have e: "ensure_category c (AList.map_entry c ?f ?cfg1) = AList.map_entry c ?f ?cfg1"
    using k by (rule ensure_category_present)
  have i: "AList.map_entry c ?f (AList.map_entry c ?f ?cfg1) = AList.map_entry c ?f ?cfg1"
    by (rule map_entry_idem) (rule update_idem)
  show ?thesis
    unfolding add_alias_no_save
    by (simp add: e i foldl_index_add_twice)
qed

lemma lower_JS: "lower ''JS'' = ''js''"
  by (simp add: lower_def lower_char_def is_upper_def)

text \<open>
  C6. \<open>add_alias(category, alias, targets)\<close>, called without saving, leaves the category
  mapping the lower-cased alias to exactly \<open>targets\<close>, whatever was stored under that key
  before; a second call with the same arguments changes neither the mapper nor the file
  system, so the entry is still exactly \<open>targets\<close>.
\<close>

theorem add_alias_last_write_wins:
  "(let (m1, fs1) = add_alias c a T False m fs;
        (m2, fs2) = add_alias c a T False m1 fs1
    in map_of (get_aliases_for_category (aliases_config m1) c) (lower a) = Some (JList T)
     \<and> map_of (get_aliases_for_category (aliases_config m2) c) (lower a) = Some (JList T)
     \<and> m2 = m1 \<and> fs2 = fs)"
proof -
  obtain m1 fs1 where r1: "add_alias c a T False m fs = (m1, fs1)"
    by (cases "add_alias c a T False m fs")
  have fs1: "fs1 = fs" using r1 by (simp add: add_alias_no_save)
  have r2: "add_alias c a T False m1 fs = (m1, fs)"
    using add_alias_twice [of c a T m fs] by (simp add: r1 fs1)
  have l1: "map_of (get_aliases_for_category (aliases_config m1) c) (lower a) = Some (JList T)"
    using lookup_after_add [of c a T m fs] by (simp add: r1)
  show ?thesis by (simp add: r1 r2 l1 fs1)
qed

theorem add_alias_last_write_wins_witness:
  "(let m = \<lparr>aliases_config = [(''product_aliases'', [(''js'', JList [''Old''])])],
              product_to_aliases = [''Old'' \<mapsto> {''js''}]\<rparr>;
        fs = \<lparr>stored = Missing, writable = True\<rparr>;
        (m1, fs1) = add_alias ''product_aliases'' ''JS'' [''JavaScript''] False m fs;
        (m2, fs2) = add_alias ''product_aliases'' ''JS'' [''JavaScript''] False m1 fs1
    in map_of (get_aliases_for_category (aliases_config m1) ''product_aliases'') ''js''
         = Some (JList [''JavaScript''])
     \<and> aliases_config m2 = [(''product_aliases'', [(''js'', JList [''JavaScript''])])]
     \<and> m2 = m1 \<and> fs2 = fs)"
  using add_alias_last_write_wins [of "''product_aliases''" "''JS''" "[''JavaScript'']"
      "\<lparr>aliases_config = [(''product_aliases'', [(''js'', JList [''Old''])])],
        product_to_aliases = [''Old'' \<mapsto> {''js''}]\<rparr>"
      "\<lparr>stored = Missing, writable = True\<rparr>"]
  by (simp add: add_alias_no_save ensure_category_def lower_JS Let_def)

section \<open>Matching\<close>

lemma foldl_insert_if:
  "foldl (\<lambda>M t. if P t then insert t M else M) S ts = S \<union> {t \<in> set ts. P t}"
  by (induction ts arbitrary: S) auto

lemma foldl_items_insert_if:
  "foldl (\<lambda>M (a, v). if Q a then foldl (\<lambda>M' t. if P t then insert t M' else M') M (iterate v)
                        else M) S al
     = S \<union> (\<Union>(a, v) \<in> set al. if Q a then {t \<in> set (iterate v). P t} else {})"
proof (induction al arbitrary: S)
  case Nil
  show ?case by simp
next
  case (Cons x al)
  obtain a v where x: "x = (a, v)" by (cases x)
  show ?case
    unfolding x by (simp add: Cons.IH foldl_insert_if Un_assoc)
qed

lemma find_matches_by_category_set:
  "find_matches_by_category m q c avs =
     (\<Union>(a, v) \<in> set (get_aliases_for_category (aliases_config m) c).
        if str_in (lower a) (lower q)
        then {t \<in> set (iterate v). case avs of None \<Rightarrow> True | Some av \<Rightarrow> t \<in> set av}
        else {})"
  unfolding find_matches_by_category_def by (simp add: foldl_items_insert_if)

lemma find_matches_by_category_all:
  "find_matches_by_category m q c None =
     (\<Union>(k, v) \<in> set (get_aliases_for_category (aliases_config m) c).
        if str_in (lower k) (lower q) then set (iterate v) else {})"
  by (simp add: find_matches_by_category_set cong: if_cong)

lemma extend_matches_foldl:
  "set (foldl (\<lambda>matches (alias, targets).
              if str_in alias q then matches @ iterate targets else matches) acc al)
     = set acc \<union> (\<Union>(k, v) \<in> set al. if str_in k q then set (iterate v) else {})"
proof (induction al arbitrary: acc)
  case Nil
  show ?case by simp
next
  case (Cons x al)
  obtain a v where x: "x = (a, v)" by (cases x)
  show ?case unfolding x by (simp add: Cons.IH Un_assoc)
qed

lemma extend_matches_set:
  "set (extend_matches al text) =
     (\<Union>(k, v) \<in> set al. if str_in k (lower text) then set (iterate v) else {})"
  unfolding extend_matches_def by (simp add: extend_matches_foldl)

lemma matches_contain_own_targets:
  assumes "map_of al a = Some (JList T)" and "str_in (f a) q"
  shows "set T \<subseteq> (\<Union>(k, v) \<in> set al. if str_in (f k) q then set (iterate v) else {})"
proof
  fix t assume t: "t \<in> set T"
  have "(a, JList T) \<in> set al" using assms(1) by (rule map_of_SomeD)
  then show "t \<in> (\<Union>(k, v) \<in> set al. if str_in (f k) q then set (iterate v) else {})"
    using assms(2) t by force
qed

lemma matches_only_own_targets:
  assumes "map_of al a = Some (JList T)" and "str_in (f a) q"
    and "distinct (map fst al)"
    and "\<forall>k \<in> fst ` set al. k \<noteq> a \<longrightarrow> \<not> str_in (f k) q"
  shows "(\<Union>(k, v) \<in> set al. if str_in (f k) q then set (iterate v) else {}) = set T"
proof
  show "set T \<subseteq> (\<Union>(k, v) \<in> set al. if str_in (f k) q then set (iterate v) else {})"
    using assms(1,2) by (rule matches_contain_own_targets)
  show "(\<Union>(k, v) \<in> set al. if str_in (f k) q then set (iterate v) else {}) \<subseteq> set T"
  proof
    fix t assume "t \<in> (\<Union>(k, v) \<in> set al. if str_in (f k) q then set (iterate v) else {})"
    then obtain k v where kv: "(k, v) \<in> set al" "str_in (f k) q" "t \<in> set (iterate v)"
      by (auto split: if_splits)
    have "k = a" using assms(4) kv(1,2) by force
    then have "map_of al a = Some v" using kv(1) assms(3) by simp
    then have "v = JList T" using assms(1) by simp
    then show "t \<in> set T" using kv(3) by simp
  qed
qed

lemma direct_matches_set:
  "direct_matches q av = {p \<in> set av. str_in (lower p) (lower q)}"
  unfolding direct_matches_def by (simp add: foldl_insert_if)

lemma product_alias_matches_set:
  "product_alias_matches al q av =
     (\<Union>(a, v) \<in> set al. if str_in (lower a) (lower q)
                           then {t \<in> set (iterate v). t \<in> set av} else {})"
  unfolding product_alias_matches_def by (simp add: foldl_items_insert_if)

text \<open>
  C5. \<open>find_products_by_query\<close> returns the available products whose lower-cased name occurs
  in the lower-cased text whenever there is one; only when there is none does it return the
  alias matches, which are the available products among the targets of the aliases found
  in the text. In both cases the result lies within the available products.
\<close>

theorem find_products_direct_first:
  "find_products_by_query m q av =
     (if {p \<in> set av. str_in (lower p) (lower q)} \<noteq> {}
      then {p \<in> set av. str_in (lower p) (lower q)}
      else {p \<in> set av.
              \<exists>(a, v) \<in> set (get_aliases_for_category (aliases_config m) ''product_aliases'').
                str_in (lower a) (lower q) \<and> p \<in> set (iterate v)})
   \<and> find_products_by_query m q av \<subseteq> set av"
  unfolding find_products_by_query_def Let_def direct_matches_set product_alias_matches_set
  by (auto split: if_splits) blast+

text \<open>
  C1, as the code has it. When \<open>a\<close> is an alias key of category \<open>c\<close> with target list \<open>T\<close>,
  \<open>find_matches_by_category\<close> with text \<open>a\<close> returns a set that contains \<open>T\<close>; it is exactly
  \<open>T\<close> when the keys of the category are distinct and no other key, lower-cased, occurs
  inside the lower-cased \<open>a\<close>. The same holds of \<open>EnhancedAliasMapper.find_matches\<close> for a
  key that is its own lower case (keys are compared as stored). For every text, the result
  is exactly the union of the targets of the aliases that occur in the lower-cased text, so
  the targets of every other alias contained in \<open>a\<close> enter the result too.
\<close>

theorem alias_text_matches_own_targets:
  "(map_of (get_aliases_for_category (aliases_config m) c) a = Some (JList T) \<longrightarrow>
      set T \<subseteq> find_matches_by_category m a c None
    \<and> (distinct (map fst (get_aliases_for_category (aliases_config m) c))
       \<and> (\<forall>k \<in> fst ` set (get_aliases_for_category (aliases_config m) c).
             k \<noteq> a \<longrightarrow> \<not> str_in (lower k) (lower a))
       \<longrightarrow> find_matches_by_category m a c None = set T))
 \<and> (getattr_aliases e c' = Table al \<and> map_of al a' = Some (JList T') \<and> lower a' = a' \<longrightarrow>
      (\<exists>R. find_matches e a' c' = Inr R \<and> set T' \<subseteq> R
        \<and> (distinct (map fst al) \<and> (\<forall>k \<in> fst ` set al. k \<noteq> a' \<longrightarrow> \<not> str_in k a')
           \<longrightarrow> R = set T')))
 \<and> find_matches_by_category m q c None =
      (\<Union>(k, v) \<in> set (get_aliases_for_category (aliases_config m) c).
         if str_in (lower k) (lower q) then set (iterate v) else {})
 \<and> ((k1, v1) \<in> set (get_aliases_for_category (aliases_config m) c)
      \<and> str_in (lower k1) (lower q) \<longrightarrow>
      set (iterate v1) \<subseteq> find_matches_by_category m q c None)
 \<and> (getattr_aliases e c' = Table al \<longrightarrow>
      find_matches e q c' =
        Inr (\<Union>(k, v) \<in> set al. if str_in k (lower q) then set (iterate v) else {}))
 \<and> (getattr_aliases e c' = Table al \<and> (k2, v2) \<in> set al \<and> str_in k2 (lower q) \<longrightarrow>
      (\<exists>R. find_matches e q c' = Inr R \<and> set (iterate v2) \<subseteq> R))"
proof (intro conjI impI)
  assume h: "map_of (get_aliases_for_category (aliases_config m) c) a = Some (JList T)"
  show "set T \<subseteq> find_matches_by_category m a c None"
    unfolding find_matches_by_category_all
    using h str_in_refl by (rule matches_contain_own_targets)
next
  assume h: "map_of (get_aliases_for_category (aliases_config m) c) a = Some (JList T)"
    and d: "distinct (map fst (get_aliases_for_category (aliases_config m) c))
       \<and> (\<forall>k \<in> fst ` set (get_aliases_for_category (aliases_config m) c).
             k \<noteq> a \<longrightarrow> \<not> str_in (lower k) (lower a))"
  show "find_matches_by_category m a c None = set T"
    unfolding find_matches_by_category_all
    using h str_in_refl conjunct1 [OF d] conjunct2 [OF d] by (rule matches_only_own_targets)
next
  assume h: "getattr_aliases e c' = Table al \<and> map_of al a' = Some (JList T') \<and> lower a' = a'"
  then have g: "getattr_aliases e c' = Table al" and mo: "map_of al a' = Some (JList T')"
    and lo: "lower a' = a'" by simp_all
  have s: "str_in ((\<lambda>k. k) a') (lower a')" using lo by (simp add: str_in_refl)
  let ?R = "\<Union>(k, v) \<in> set al. if str_in ((\<lambda>k. k) k) (lower a') then set (iterate v) else {}"
  have r: "find_matches e a' c' = Inr ?R"
    by (simp add: find_matches_def g extend_matches_set)
  have sub: "set T' \<subseteq> ?R" using mo s by (rule matches_contain_own_targets)
  have ex: "distinct (map fst al) \<and> (\<forall>k \<in> fst ` set al. k \<noteq> a' \<longrightarrow> \<not> str_in k a') \<longrightarrow> ?R = set T'"
  proof
    assume d: "distinct (map fst al) \<and> (\<forall>k \<in> fst ` set al. k \<noteq> a' \<longrightarrow> \<not> str_in k a')"
    have d2: "\<forall>k \<in> fst ` set al. k \<noteq> a' \<longrightarrow> \<not> str_in ((\<lambda>k. k) k) (lower a')"
      using conjunct2 [OF d] lo by simp
    show "?R = set T'" using mo s conjunct1 [OF d] d2 by (rule matches_only_own_targets)
  qed
  show "\<exists>R. find_matches e a' c' = Inr R \<and> set T' \<subseteq> R
        \<and> (distinct (map fst al) \<and> (\<forall>k \<in> fst ` set al. k \<noteq> a' \<longrightarrow> \<not> str_in k a')
           \<longrightarrow> R = set T')"
    using r sub ex by blast
next
  show "find_matches_by_category m q c None =
      (\<Union>(k, v) \<in> set (get_aliases_for_category (aliases_config m) c).
         if str_in (lower k) (lower q) then set (iterate v) else {})"
    by (rule find_matches_by_category_all)
next
  assume h: "(k1, v1) \<in> set (get_aliases_for_category (aliases_config m) c)
      \<and> str_in (lower k1) (lower q)"
  show "set (iterate v1) \<subseteq> find_matches_by_category m q c None"
    unfolding find_matches_by_category_all
  proof
    fix t assume t: "t \<in> set (iterate v1)"
    have "t \<in> (case (k1, v1) of (k, v) \<Rightarrow>
                  if str_in (lower k) (lower q) then set (iterate v) else {})"
      using h t by simp
    then show "t \<in> (\<Union>(k, v) \<in> set (get_aliases_for_category (aliases_config m) c).
                     if str_in (lower k) (lower q) then set (iterate v) else {})"
      using conjunct1 [OF h] by blast
  qed
next
  assume g: "getattr_aliases e c' = Table al"
  show "find_matches e q c' =
        Inr (\<Union>(k, v) \<in> set al. if str_in k (lower q) then set (iterate v) else {})"
    by (simp add: find_matches_def g extend_matches_set)
next
  assume h: "getattr_aliases e c' = Table al \<and> (k2, v2) \<in> set al \<and> str_in k2 (lower q)"
  then have g: "getattr_aliases e c' = Table al" and kv: "(k2, v2) \<in> set al"
    and si: "str_in k2 (lower q)" by simp_all
  let ?R = "\<Union>(k, v) \<in> set al. if str_in k (lower q) then set (iterate v) else {}"
  have r: "find_matches e q c' = Inr ?R"
    by (simp add: find_matches_def g extend_matches_set)
  have sub: "set (iterate v2) \<subseteq> ?R"
  proof
    fix t assume t: "t \<in> set (iterate v2)"
    have "t \<in> (case (k2, v2) of (k, v) \<Rightarrow> if str_in k (lower q) then set (iterate v) else {})"
      using si t by simp
    then show "t \<in> ?R" using kv by blast
  qed
  show "\<exists>R. find_matches e q c' = Inr R \<and> set (iterate v2) \<subseteq> R"
    using r sub by blast
qed

section \<open>Matching on concrete inputs\<close>

lemma lower_keys:
  "lower ''js'' = ''js''"
  "lower ''python'' = ''python''"
  "lower ''usage'' = ''usage''"
  "lower ''java'' = ''java''"
  "lower ''javascript'' = ''javascript''"
  "lower ''rhel'' = ''rhel''"
  by (simp_all add: lower_def lower_char_def is_upper_def)

lemma getattr_product: "getattr_aliases e ''product'' = Table (product_aliases e)"
  by (simp add: getattr_aliases_def)

lemma getattr_os: "getattr_aliases e ''os'' = Table (os_aliases e)"
  by (simp add: getattr_aliases_def)

lemma javascript_entry:
  "map_of builtin_product_aliases ''javascript'' =
     Some (JList [''JavaScript'', ''JavaScript (Node.JS)'', ''JavaScript RLC''])"
  by (simp add: builtin_product_aliases_def)

lemma java_document_matches:
  "find_matches_by_category
     \<lparr>aliases_config = java_document,
      product_to_aliases = build_reverse_mappings java_document Map.empty\<rparr>
     ''javascript'' ''product_aliases'' None = {''Java Fluent Lite'', ''JavaScript''}"
  by (simp add: find_matches_by_category_def get_aliases_for_category_def java_document_def
        lower_keys insert_commute)

lemma python_entry: "map_of (get_aliases_for_category (aliases_config example_mapper) ''product_aliases'')
             ''python'' = Some (JList [''Python-SDK''])"
  by (simp add: example_mapper_def get_aliases_for_category_def)

lemma python_alone: "distinct (map fst (get_aliases_for_category (aliases_config example_mapper) ''product_aliases''))
       \<and> (\<forall>k \<in> fst ` set (get_aliases_for_category (aliases_config example_mapper) ''product_aliases'').
             k \<noteq> ''python'' \<longrightarrow> \<not> str_in (lower k) (lower ''python''))"
  by (simp add: example_mapper_def get_aliases_for_category_def lower_keys)

lemma rhel_entry: "getattr_aliases enhanced_init ''os'' = Table builtin_os_aliases
    \<and> map_of builtin_os_aliases ''rhel'' = Some (JList [''Linux'']) \<and> lower ''rhel'' = ''rhel''"
  by (simp add: getattr_os enhanced_init_def builtin_os_aliases_def lower_keys)

lemma rhel_alone: "distinct (map fst builtin_os_aliases)
     \<and> (\<forall>k \<in> fst ` set builtin_os_aliases. k \<noteq> ''rhel'' \<longrightarrow> \<not> str_in k ''rhel'')"
  by (simp add: builtin_os_aliases_def)

lemma javascript_matches:
  "find_matches enhanced_init ''javascript'' ''product'' =
     Inr {''JavaScript'', ''JavaScript (Node.JS)'', ''JavaScript RLC'',
          ''Java Fluent Lite'', ''Java Fluent Premium''}"
  by (simp add: find_matches_def getattr_product enhanced_init_def extend_matches_def
        builtin_product_aliases_def lower_keys)

text \<open>
  C1 as stated fails: the text \<open>javascript\<close> also contains the alias \<open>java\<close>, so the Java
  products enter the result, both with the built-in tables of \<open>EnhancedAliasMapper\<close> and
  with a loaded document that has the two keys.
\<close>

theorem alias_text_extra_targets_counterexample:
  "map_of builtin_product_aliases ''javascript'' =
     Some (JList [''JavaScript'', ''JavaScript (Node.JS)'', ''JavaScript RLC''])
   \<and> find_matches enhanced_init ''javascript'' ''product'' =
       Inr {''JavaScript'', ''JavaScript (Node.JS)'', ''JavaScript RLC'',
            ''Java Fluent Lite'', ''Java Fluent Premium''}
   \<and> ''Java Fluent Lite'' \<notin> set [''JavaScript'', ''JavaScript (Node.JS)'', ''JavaScript RLC'']
   \<and> map_of (get_aliases_for_category java_document ''product_aliases'') ''javascript'' =
       Some (JList [''JavaScript''])
   \<and> find_matches_by_category
        \<lparr>aliases_config = java_document,
         product_to_aliases = build_reverse_mappings java_document Map.empty\<rparr>
        ''javascript'' ''product_aliases'' None = {''Java Fluent Lite'', ''JavaScript''}
   \<and> ''Java Fluent Lite'' \<notin> set [''JavaScript'']"
proof (intro conjI)
  show "map_of builtin_product_aliases ''javascript'' =
     Some (JList [''JavaScript'', ''JavaScript (Node.JS)'', ''JavaScript RLC''])"
    by (rule javascript_entry)
  show "find_matches enhanced_init ''javascript'' ''product'' =
       Inr {''JavaScript'', ''JavaScript (Node.JS)'', ''JavaScript RLC'',
            ''Java Fluent Lite'', ''Java Fluent Premium''}"
    by (rule javascript_matches)
  show "''Java Fluent Lite'' \<notin> set [''JavaScript'', ''JavaScript (Node.JS)'', ''JavaScript RLC'']"
    by simp
  show "map_of (get_aliases_for_category java_document ''product_aliases'') ''javascript'' =
       Some (JList [''JavaScript''])"
    by (simp add: java_document_def get_aliases_for_category_def)
  show "find_matches_by_category
        \<lparr>aliases_config = java_document,
         product_to_aliases = build_reverse_mappings java_document Map.empty\<rparr>
        ''javascript'' ''product_aliases'' None = {''Java Fluent Lite'', ''JavaScript''}"
    by (rule java_document_matches)
  show "''Java Fluent Lite'' \<notin> set [''JavaScript'']" by simp
qed

lemma java_entry:
  "(''java'', JList [''Java Fluent Lite''])
     \<in> set (get_aliases_for_category
              (aliases_config
                 \<lparr>aliases_config = java_document,
                  product_to_aliases = build_reverse_mappings java_document Map.empty\<rparr>)
              ''product_aliases'')
   \<and> str_in (lower ''java'') (lower ''javascript'')"
  by (simp add: java_document_def get_aliases_for_category_def lower_keys)

lemma builtin_java_entry:
  "getattr_aliases enhanced_init ''product'' = Table builtin_product_aliases
   \<and> (''java'', JList [''Java Fluent Lite'', ''Java Fluent Premium''])
       \<in> set builtin_product_aliases
   \<and> str_in ''java'' (lower ''javascript'')"
  by (simp add: getattr_product enhanced_init_def builtin_product_aliases_def lower_keys)

text \<open>
  The alias \<open>python\<close> of the example mapper and the alias \<open>rhel\<close> of the built-in tables,
  which no other alias lies inside; and the alias \<open>java\<close> inside the text \<open>javascript\<close>,
  whose targets enter the result.
\<close>

theorem alias_text_matches_own_targets_witness:
  "set [''Python-SDK''] \<subseteq> find_matches_by_category example_mapper ''python'' ''product_aliases'' None
   \<and> find_matches_by_category example_mapper ''python'' ''product_aliases'' None = set [''Python-SDK'']
   \<and> (\<exists>R. find_matches enhanced_init ''rhel'' ''os'' = Inr R \<and> set [''Linux''] \<subseteq> R
          \<and> R = set [''Linux''])
   \<and> set (iterate (JList [''Java Fluent Lite'']))
       \<subseteq> find_matches_by_category
            \<lparr>aliases_config = java_document,
             product_to_aliases = build_reverse_mappings java_document Map.empty\<rparr>
            ''javascript'' ''product_aliases'' None
   \<and> (\<exists>R. find_matches enhanced_init ''javascript'' ''product'' = Inr R
          \<and> set (iterate (JList [''Java Fluent Lite'', ''Java Fluent Premium''])) \<subseteq> R)"
proof -
  note t = alias_text_matches_own_targets [of example_mapper "''product_aliases''" "''python''"
      "[''Python-SDK'']" enhanced_init "''os''" builtin_os_aliases "''rhel''" "[''Linux'']"]
  have a: "set [''Python-SDK''] \<subseteq> find_matches_by_category example_mapper ''python'' ''product_aliases'' None
       \<and> (distinct (map fst (get_aliases_for_category (aliases_config example_mapper) ''product_aliases''))
       \<and> (\<forall>k \<in> fst ` set (get_aliases_for_category (aliases_config example_mapper) ''product_aliases'').
             k \<noteq> ''python'' \<longrightarrow> \<not> str_in (lower k) (lower ''python''))
          \<longrightarrow> find_matches_by_category example_mapper ''python'' ''product_aliases'' None = set [''Python-SDK''])"
    using conjunct1 [OF t] python_entry by (rule mp)
  have a1: "set [''Python-SDK''] \<subseteq> find_matches_by_category example_mapper ''python'' ''product_aliases'' None"
    using a by (rule conjunct1)
  have a2: "find_matches_by_category example_mapper ''python'' ''product_aliases'' None = set [''Python-SDK'']"
    using conjunct2 [OF a] python_alone by (rule mp)
  have b: "\<exists>R. find_matches enhanced_init ''rhel'' ''os'' = Inr R \<and> set [''Linux''] \<subseteq> R
        \<and> (distinct (map fst builtin_os_aliases)
            \<and> (\<forall>k \<in> fst ` set builtin_os_aliases. k \<noteq> ''rhel'' \<longrightarrow> \<not> str_in k ''rhel'')
           \<longrightarrow> R = set [''Linux''])"
    using conjunct1 [OF conjunct2 [OF t]] rhel_entry by (rule mp)
  then obtain R where R: "find_matches enhanced_init ''rhel'' ''os'' = Inr R" "set [''Linux''] \<subseteq> R"
    "distinct (map fst builtin_os_aliases)
            \<and> (\<forall>k \<in> fst ` set builtin_os_aliases. k \<noteq> ''rhel'' \<longrightarrow> \<not> str_in k ''rhel'')
           \<longrightarrow> R = set [''Linux'']"
    by (elim exE conjE)
  have R3: "R = set [''Linux'']" using R(3) rhel_alone by (rule mp)
  have b': "\<exists>R. find_matches enhanced_init ''rhel'' ''os'' = Inr R \<and> set [''Linux''] \<subseteq> R
          \<and> R = set [''Linux'']"
    using R(1,2) R3 by (intro exI conjI)
  note u = alias_text_matches_own_targets [where
      m = "\<lparr>aliases_config = java_document,
             product_to_aliases = build_reverse_mappings java_document Map.empty\<rparr>"
      and c = "''product_aliases''" and q = "''javascript''" and ?k1.0 = "''java''"
      and ?v1.0 = "JList [''Java Fluent Lite'']" and e = enhanced_init and c' = "''product''"
      and al = builtin_product_aliases and ?k2.0 = "''java''"
      and ?v2.0 = "JList [''Java Fluent Lite'', ''Java Fluent Premium'']"]
  have c5: "set (iterate (JList [''Java Fluent Lite'']))
       \<subseteq> find_matches_by_category
            \<lparr>aliases_config = java_document,
             product_to_aliases = build_reverse_mappings java_document Map.empty\<rparr>
            ''javascript'' ''product_aliases'' None"
    using conjunct1 [OF conjunct2 [OF conjunct2 [OF conjunct2 [OF u]]]] java_entry by (rule mp)
  have c7: "\<exists>R. find_matches enhanced_init ''javascript'' ''product'' = Inr R
          \<and> set (iterate (JList [''Java Fluent Lite'', ''Java Fluent Premium''])) \<subseteq> R"
    using conjunct2 [OF conjunct2 [OF conjunct2 [OF conjunct2 [OF conjunct2 [OF u]]]]]
      builtin_java_entry by (rule mp)
  show ?thesis using a1 a2 b' c5 c7 by (intro conjI)
qed

lemma lower_queries:
  "lower ''js and python'' = ''js and python''"
  "lower ''Python-SDK usage'' = ''python-sdk usage''"
  "lower ''JavaScript'' = ''javascript''"
  "lower ''Python-SDK'' = ''python-sdk''"
  "lower ''Java Fluent'' = ''java fluent''"
  by (simp_all add: lower_def lower_char_def is_upper_def)

lemma find_products_by_alias_example:
  "find_products_by_query example_mapper ''js and python'' example_products
     = {''JavaScript'', ''Python-SDK''}"
  by (simp add: find_products_by_query_def direct_matches_def product_alias_matches_def
        get_aliases_for_category_def example_mapper_def example_products_def
        lower_queries lower_keys insert_commute)

lemma find_products_direct_example:
  "find_products_by_query example_mapper ''Python-SDK usage'' example_products
     = {''Python-SDK''}"
  by (simp add: find_products_by_query_def direct_matches_def product_alias_matches_def
        get_aliases_for_category_def example_mapper_def example_products_def
        lower_queries lower_keys)

text \<open>
  Both phases at work: no product name occurs in \<open>js and python\<close>, so the aliases decide;
  \<open>Python-SDK usage\<close> names a product, so the alias \<open>usage\<close> of another product is not
  consulted.
\<close>

theorem find_products_direct_first_witness:
  "find_products_by_query example_mapper ''js and python'' example_products
     = {''JavaScript'', ''Python-SDK''}
   \<and> find_products_by_query example_mapper ''Python-SDK usage'' example_products
     = {''Python-SDK''}
   \<and> find_products_by_query example_mapper ''Python-SDK usage'' example_products
       \<subseteq> set example_products"
  using find_products_by_alias_example find_products_direct_example
    conjunct2 [OF find_products_direct_first [of example_mapper "''Python-SDK usage''"
      example_products]]
  by (intro conjI)

section \<open>Loading\<close>

text \<open>
  C3 as stated fails on its first half: with no file at the path, \<open>FileNotFoundError\<close> is
  raised inside the \<open>try\<close> block and caught there, and the empty configuration is returned.
\<close>

theorem load_missing_returns_config_counterexample:
  "load_attempt Missing = Inl FileNotFoundError
   \<and> load_aliases_config Missing = Inr fallback_config
   \<and> load_aliases_config Missing \<noteq> Inl FileNotFoundError"
  by (simp add: load_aliases_config_def)

text \<open>
  C3, as the code has it. \<open>_load_aliases_config\<close> never fails: when the source is absent and
  when it cannot be read or parsed, the result is the empty configuration, in which every
  required section (and every other section) is present as an empty mapping; a document
  that parses is returned as it is.
\<close>

theorem load_never_fails:
  "load_aliases_config Missing = Inr fallback_config
   \<and> load_aliases_config Unreadable = Inr fallback_config
   \<and> load_aliases_config (Document c) = Inr c
   \<and> (\<forall>s \<in> set required_sections. map_of fallback_config s = Some [])
   \<and> (\<forall>(s, al) \<in> set fallback_config. al = [])"
  by (simp add: load_aliases_config_def required_sections_def fallback_config_def)

text \<open>A document that parses, and the required section \<open>os_aliases\<close>.\<close>

theorem load_never_fails_witness:
  "load_aliases_config (Document js_document) = Inr js_document
   \<and> map_of fallback_config ''os_aliases'' = Some []"
proof -
  note t = load_never_fails [of js_document]
  have a: "load_aliases_config (Document js_document) = Inr js_document"
    using t by (elim conjE)
  have b: "\<forall>s \<in> set required_sections. map_of fallback_config s = Some []"
    using t by (elim conjE)
  have "''os_aliases'' \<in> set required_sections" by (simp add: required_sections_def)
  with b have "map_of fallback_config ''os_aliases'' = Some []" by (rule bspec)
  with a show ?thesis by (rule conjI)
qed

section \<open>The reverse index\<close>

lemma index_get_foldl:
  "index_get (foldl (index_add a) idx ts) p =
     (if p \<in> set ts then insert a (index_get idx p) else index_get idx p)"
  by (simp add: index_get_def foldl_index_add)

lemma index_get_items:
  "index_get (foldl (\<lambda>i (a, v). foldl (index_add a) i (iterate v)) idx al) p =
     index_get idx p \<union> {a. \<exists>v. (a, v) \<in> set al \<and> p \<in> set (iterate v)}"
proof (induction al arbitrary: idx)
  case Nil
  show ?case by simp
next
  case (Cons x al)
  obtain a v where x: "x = (a, v)" by (cases x)
  show ?case unfolding x by (auto simp: Cons.IH index_get_foldl)
qed

text \<open>
  After loading, the reverse index is exactly the reverse of the product category: \<open>a\<close> is an
  alias of \<open>p\<close> if and only if \<open>p\<close> is among the targets stored for \<open>a\<close>.
\<close>

lemma init_reverse_index_consistent:
  assumes "init fs = Inr m"
  shows "a \<in> get_aliases_for_product m p \<longleftrightarrow>
           (\<exists>v. (a, v) \<in> set (get_aliases_for_category (aliases_config m) ''product_aliases'')
                \<and> p \<in> set (iterate v))"
proof -
  obtain cfg where c: "load_aliases_config (stored fs) = Inr cfg"
    and m: "m = \<lparr>aliases_config = cfg, product_to_aliases = build_reverse_mappings cfg Map.empty\<rparr>"
    using assms by (auto simp: init_def split: sum.splits)
  have "get_aliases_for_product m p = index_get (build_reverse_mappings cfg Map.empty) p"
    by (simp add: get_aliases_for_product_def index_get_def m)
  also have "\<dots> = {a. \<exists>v. (a, v) \<in> set (get_aliases_for_category cfg ''product_aliases'')
                       \<and> p \<in> set (iterate v)}"
    unfolding build_reverse_mappings_def by (simp add: index_get_items) (simp add: index_get_def)
  finally show ?thesis by (simp add: m)
qed

lemma init_js: "init js_filesystem =
   Inr \<lparr>aliases_config = js_document,
        product_to_aliases = [''JavaScript'' \<mapsto> {''js''}]\<rparr>"
  by (simp add: init_def js_filesystem_def load_aliases_config_def build_reverse_mappings_def
        get_aliases_for_category_def js_document_def index_add_def)

text \<open>
  C4 does not hold of \<open>add_alias\<close>: overwriting the entry of \<open>js\<close> with a new target list adds
  \<open>js\<close> to the aliases of the new target but leaves it among the aliases of the old one.
  After loading \<open>{js: [JavaScript]}\<close> and adding \<open>js\<close> with \<open>[JavaScript RLC]\<close>, the index
  still gives \<open>js\<close> for \<open>JavaScript\<close>, while the configuration maps \<open>js\<close> to
  \<open>[JavaScript RLC]\<close> only.
\<close>

theorem reverse_index_stale_after_overwrite:
  "(case init js_filesystem of
      Inl e \<Rightarrow> False
    | Inr m0 \<Rightarrow>
        (let (m1, fs1) = add_alias ''product_aliases'' ''js'' [''JavaScript RLC''] False m0
                            js_filesystem
         in ''js'' \<in> get_aliases_for_product m1 ''JavaScript''
          \<and> map_of (get_aliases_for_category (aliases_config m1) ''product_aliases'') ''js''
              = Some (JList [''JavaScript RLC''])
          \<and> ''JavaScript'' \<notin> set [''JavaScript RLC'']))"
  by (simp add: init_js add_alias_no_save ensure_category_def js_document_def lower_keys
        get_aliases_for_product_def get_aliases_for_category_def index_add_def)

section \<open>Query execution and assembly\<close>

text \<open>
  C2. When the lower-cased, stripped query does not start with \<open>select\<close>, or starts with it
  but contains one of the seven keywords, \<open>execute_sql_query_direct\<close> returns an error result
  and hands nothing to the SQL client. The client is called (once, with the query as given)
  exactly when both checks pass.
\<close>

theorem execute_sql_query_direct_guard:
  "(\<not> startswith (strip (lower q)) ''select'' \<longrightarrow>
      execute_sql_query_direct client q = (Error ''Only SELECT queries are allowed'', []))
 \<and> (startswith (strip (lower q)) ''select''
      \<and> (\<exists>k \<in> set dangerous_keywords. str_in k (strip (lower q))) \<longrightarrow>
      execute_sql_query_direct client q = (Error ''Query contains prohibited operations'', []))
 \<and> (startswith (strip (lower q)) ''select''
      \<and> \<not> (\<exists>k \<in> set dangerous_keywords. str_in k (strip (lower q))) \<longrightarrow>
      snd (execute_sql_query_direct client q) = [q])
 \<and> (snd (execute_sql_query_direct client q) \<noteq> [] \<longrightarrow>
      startswith (strip (lower q)) ''select''
      \<and> \<not> (\<exists>k \<in> set dangerous_keywords. str_in k (strip (lower q))))"
  by (simp add: execute_sql_query_direct_def Let_def list_ex_iff split: sum.splits)

lemma replace_select_prefix:
  "replace (''SELECT '' @ rest) ''SELECT'' new =
     new @ '' '' @ replace_from 0 ''SELECT'' new rest"
  by (simp add: replace_def)

lemma replace_from_absent:
  "\<not> str_in old s \<Longrightarrow> replace_from 0 old new s = s"
  by (induction s) auto

text \<open>
  C7. The two examples of the assembled SELECT string. Without a limit clause the string
  is \<open>SELECT\<close>, the columns, \<open>FROM\<close>, the table, the \<open>WHERE\<close> segment unless the where clause is
  \<open>1=1\<close>, and the order clause if there is one. With a limit clause it is that same string
  with \<open>SELECT\<close> replaced by \<open>SELECT\<close> and the limit clause: the limit clause stands right
  after the leading \<open>SELECT\<close>, and when \<open>SELECT\<close> does not occur again the rest is unchanged,
  so the \<open>WHERE\<close> segment is omitted for \<open>1=1\<close> with a limit clause as well.
\<close>

theorem suggested_sql_shape:
  "suggested_sql ''T'' [''A'', ''B''] ''1=1'' [] ''TOP 5'' = ''SELECT TOP 5 A, B FROM T''
 \<and> suggested_sql ''T'' [''*''] ''X > 1'' ''ORDER BY X DESC'' []
      = ''SELECT * FROM T WHERE X > 1 ORDER BY X DESC''
 \<and> (limit_c \<noteq> [] \<longrightarrow>
      prefix (''SELECT '' @ limit_c @ '' '') (suggested_sql table cols where_c order_c limit_c))
 \<and> suggested_sql table cols ''1=1'' order_c [] =
      ''SELECT '' @ (if cols \<noteq> [] then join '', '' cols else ''*'') @ '' FROM '' @ table
        @ (if order_c \<noteq> [] then '' '' @ order_c else [])
 \<and> (where_c \<noteq> ''1=1'' \<longrightarrow>
      suggested_sql table cols where_c order_c [] =
        ''SELECT '' @ (if cols \<noteq> [] then join '', '' cols else ''*'') @ '' FROM '' @ table
          @ '' WHERE '' @ where_c @ (if order_c \<noteq> [] then '' '' @ order_c else []))
 \<and> suggested_sql table cols where_c order_c [] =
      ''SELECT '' @ (if cols \<noteq> [] then join '', '' cols else ''*'') @ '' FROM '' @ table
        @ (if where_c \<noteq> ''1=1'' then '' WHERE '' @ where_c else [])
        @ (if order_c \<noteq> [] then '' '' @ order_c else [])
 \<and> (limit_c \<noteq> [] \<longrightarrow>
      suggested_sql table cols where_c order_c limit_c =
        replace (suggested_sql table cols where_c order_c []) ''SELECT'' (''SELECT '' @ limit_c))
 \<and> (limit_c \<noteq> [] \<longrightarrow>
      suggested_sql table cols where_c order_c limit_c =
        ''SELECT '' @ limit_c @ '' ''
          @ replace_from 0 ''SELECT'' (''SELECT '' @ limit_c)
              ((if cols \<noteq> [] then join '', '' cols else ''*'') @ '' FROM '' @ table
                 @ (if where_c \<noteq> ''1=1'' then '' WHERE '' @ where_c else [])
                 @ (if order_c \<noteq> [] then '' '' @ order_c else [])))
 \<and> (limit_c \<noteq> []
      \<and> \<not> str_in ''SELECT''
            ((if cols \<noteq> [] then join '', '' cols else ''*'') @ '' FROM '' @ table
               @ (if where_c \<noteq> ''1=1'' then '' WHERE '' @ where_c else [])
               @ (if order_c \<noteq> [] then '' '' @ order_c else [])) \<longrightarrow>
      suggested_sql table cols where_c order_c limit_c =
        ''SELECT '' @ limit_c @ '' ''
          @ (if cols \<noteq> [] then join '', '' cols else ''*'') @ '' FROM '' @ table
          @ (if where_c \<noteq> ''1=1'' then '' WHERE '' @ where_c else [])
          @ (if order_c \<noteq> [] then '' '' @ order_c else []))"
proof -
  define rest where "rest =
     (if cols \<noteq> [] then join '', '' cols else ''*'') @ '' FROM '' @ table
       @ (if where_c \<noteq> ''1=1'' then '' WHERE '' @ where_c else [])
       @ (if order_c \<noteq> [] then '' '' @ order_c else [])"
  have plain: "suggested_sql table cols where_c order_c [] = ''SELECT '' @ rest"
    by (simp add: suggested_sql_def Let_def rest_def)
  have limited: "suggested_sql table cols where_c order_c limit_c =
          replace (''SELECT '' @ rest) ''SELECT'' (''SELECT '' @ limit_c)"
    if "limit_c \<noteq> []"
    using that by (simp add: suggested_sql_def Let_def rest_def)
  have expanded: "suggested_sql table cols where_c order_c limit_c =
          ''SELECT '' @ limit_c @ '' '' @ replace_from 0 ''SELECT'' (''SELECT '' @ limit_c) rest"
    if "limit_c \<noteq> []"
    using limited [OF that] by (simp only: replace_select_prefix append_assoc)
  have c1: "suggested_sql ''T'' [''A'', ''B''] ''1=1'' [] ''TOP 5'' = ''SELECT TOP 5 A, B FROM T''"
    by (simp add: suggested_sql_def replace_def)
  have c2: "suggested_sql ''T'' [''*''] ''X > 1'' ''ORDER BY X DESC'' []
      = ''SELECT * FROM T WHERE X > 1 ORDER BY X DESC''"
    by (simp add: suggested_sql_def)
  have c3: "limit_c \<noteq> [] \<longrightarrow>
      prefix (''SELECT '' @ limit_c @ '' '') (suggested_sql table cols where_c order_c limit_c)"
  proof
    assume l: "limit_c \<noteq> []"
    have "suggested_sql table cols where_c order_c limit_c =
          (''SELECT '' @ limit_c @ '' '') @ replace_from 0 ''SELECT'' (''SELECT '' @ limit_c) rest"
      using expanded [OF l] by (simp only: append_assoc)
    then show "prefix (''SELECT '' @ limit_c @ '' '')
                 (suggested_sql table cols where_c order_c limit_c)"
      by (simp only: prefixI)
  qed
  have c4: "suggested_sql table cols ''1=1'' order_c [] =
      ''SELECT '' @ (if cols \<noteq> [] then join '', '' cols else ''*'') @ '' FROM '' @ table
        @ (if order_c \<noteq> [] then '' '' @ order_c else [])"
    by (simp add: suggested_sql_def Let_def)
  have c5: "where_c \<noteq> ''1=1'' \<longrightarrow>
      suggested_sql table cols where_c order_c [] =
        ''SELECT '' @ (if cols \<noteq> [] then join '', '' cols else ''*'') @ '' FROM '' @ table
          @ '' WHERE '' @ where_c @ (if order_c \<noteq> [] then '' '' @ order_c else [])"
    by (simp add: suggested_sql_def Let_def)
  have c6: "suggested_sql table cols where_c order_c [] = ''SELECT '' @ rest"
    by (rule plain)
  have c7: "limit_c \<noteq> [] \<longrightarrow>
      suggested_sql table cols where_c order_c limit_c =
        replace (suggested_sql table cols where_c order_c []) ''SELECT'' (''SELECT '' @ limit_c)"
    using limited by (simp only: plain) blast
  have c8: "limit_c \<noteq> [] \<longrightarrow>
      suggested_sql table cols where_c order_c limit_c =
        ''SELECT '' @ limit_c @ '' '' @ replace_from 0 ''SELECT'' (''SELECT '' @ limit_c) rest"
    using expanded by blast
  have c9: "limit_c \<noteq> [] \<and> \<not> str_in ''SELECT'' rest \<longrightarrow>
      suggested_sql table cols where_c order_c limit_c = ''SELECT '' @ limit_c @ '' '' @ rest"
  proof
    assume h: "limit_c \<noteq> [] \<and> \<not> str_in ''SELECT'' rest"
    have "replace_from 0 ''SELECT'' (''SELECT '' @ limit_c) rest = rest"
      using conjunct2 [OF h] by (rule replace_from_absent)
    then show "suggested_sql table cols where_c order_c limit_c
                 = ''SELECT '' @ limit_c @ '' '' @ rest"
      using expanded [OF conjunct1 [OF h]] by (simp only:)
  qed
  show ?thesis
    using c1 c2 c3 c4 c5 c6 c7 c8 c9 unfolding rest_def by (intro conjI)
qed

lemma stripped_queries:
  "strip (lower ''DROP TABLE X'') = ''drop table x''"
  "strip (lower ''select 1; drop table x'') = ''select 1; drop table x''"
  "strip (lower '' SELECT A FROM T'') = ''select a from t''"
  by (simp_all add: lower_def lower_char_def is_upper_def strip_def isspace_def)

lemma drop_refused: "\<not> startswith (strip (lower ''DROP TABLE X'')) ''select''"
  by (simp add: stripped_queries startswith_def)

lemma hidden_drop_refused:
  "startswith (strip (lower ''select 1; drop table x'')) ''select''
   \<and> (\<exists>k \<in> set dangerous_keywords. str_in k (strip (lower ''select 1; drop table x'')))"
  by (simp add: stripped_queries startswith_def dangerous_keywords_def)

lemma select_passes:
  "startswith (strip (lower '' SELECT A FROM T'')) ''select''
   \<and> \<not> (\<exists>k \<in> set dangerous_keywords. str_in k (strip (lower '' SELECT A FROM T'')))"
  by (simp add: stripped_queries startswith_def dangerous_keywords_def)

text \<open>A refused statement, a refused SELECT that hides a \<open>drop\<close>, and a SELECT that is executed.\<close>

theorem execute_sql_query_direct_guard_witness:
  "execute_sql_query_direct example_client ''DROP TABLE X''
     = (Error ''Only SELECT queries are allowed'', [])
   \<and> execute_sql_query_direct example_client ''select 1; drop table x''
     = (Error ''Query contains prohibited operations'', [])
   \<and> snd (execute_sql_query_direct example_client '' SELECT A FROM T'') = ['' SELECT A FROM T'']"
proof (intro conjI)
  note t1 = execute_sql_query_direct_guard [of "''DROP TABLE X''" example_client]
  show "execute_sql_query_direct example_client ''DROP TABLE X''
     = (Error ''Only SELECT queries are allowed'', [])"
    using conjunct1 [OF t1] drop_refused by (rule mp)
  note t2 = execute_sql_query_direct_guard [of "''select 1; drop table x''" example_client]
  show "execute_sql_query_direct example_client ''select 1; drop table x''
     = (Error ''Query contains prohibited operations'', [])"
    using conjunct1 [OF conjunct2 [OF t2]] hidden_drop_refused by (rule mp)
  note t3 = execute_sql_query_direct_guard [of "'' SELECT A FROM T''" example_client]
  show "snd (execute_sql_query_direct example_client '' SELECT A FROM T'') = ['' SELECT A FROM T'']"
    using conjunct1 [OF conjunct2 [OF conjunct2 [OF t3]]] select_passes by (rule mp)
qed

lemma select_result:
  "execute_sql_query_direct example_client '' SELECT A FROM T''
     = (Success '' SELECT A FROM T'' [[(''A'', 1)], [(''A'', 2)]] 2 [''A''], ['' SELECT A FROM T''])"
  using select_passes
  by (simp add: execute_sql_query_direct_def Let_def list_ex_iff example_client_def
        format_row_def)

lemma no_second_select:
  "''TOP 5'' \<noteq> []
   \<and> \<not> str_in ''SELECT''
         ((if [''A''] \<noteq> [] then join '', '' [''A''] else ''*'') @ '' FROM '' @ ''T''
            @ (if ''1=1'' \<noteq> ''1=1'' then '' WHERE '' @ ''1=1'' else [])
            @ (if ''ORDER BY A DESC'' \<noteq> [] then '' '' @ ''ORDER BY A DESC'' else []))"
  by simp

text \<open>
  The limit clause \<open>TOP 5\<close>, the where clause \<open>X > 1\<close>, and the where clause \<open>1=1\<close> together
  with an order clause and a limit clause.
\<close>

theorem suggested_sql_shape_witness:
  "prefix (''SELECT '' @ ''TOP 5'' @ '' '') (suggested_sql ''T'' [''A'', ''B''] ''1=1'' [] ''TOP 5'')
   \<and> suggested_sql ''T'' [''A''] ''X > 1'' [] [] =
        ''SELECT '' @ (if [''A''] \<noteq> [] then join '', '' [''A''] else ''*'') @ '' FROM '' @ ''T''
          @ '' WHERE '' @ ''X > 1'' @ (if [] \<noteq> ([]::string) then '' '' @ [] else [])
   \<and> suggested_sql ''T'' [''A''] ''1=1'' ''ORDER BY A DESC'' ''TOP 5''
        = ''SELECT TOP 5 A FROM T ORDER BY A DESC''"
proof (intro conjI)
  note t = suggested_sql_shape [of "''TOP 5''" "''T''" "[''A'', ''B'']" "''1=1''" "[]"]
  have n: "''TOP 5'' \<noteq> []" by simp
  show "prefix (''SELECT '' @ ''TOP 5'' @ '' '') (suggested_sql ''T'' [''A'', ''B''] ''1=1'' [] ''TOP 5'')"
    using conjunct1 [OF conjunct2 [OF conjunct2 [OF t]]] n by (rule mp)
  note u = suggested_sql_shape [of "[]" "''T''" "[''A'']" "''X > 1''" "[]"]
  have w: "''X > 1'' \<noteq> ''1=1''" by simp
  show "suggested_sql ''T'' [''A''] ''X > 1'' [] [] =
        ''SELECT '' @ (if [''A''] \<noteq> [] then join '', '' [''A''] else ''*'') @ '' FROM '' @ ''T''
          @ '' WHERE '' @ ''X > 1'' @ (if [] \<noteq> ([]::string) then '' '' @ [] else [])"
    using conjunct1 [OF conjunct2 [OF conjunct2 [OF conjunct2 [OF conjunct2 [OF u]]]]] w
    by (rule mp)
  note v = suggested_sql_shape [of "''TOP 5''" "''T''" "[''A'']" "''1=1''" "''ORDER BY A DESC''"]
  have "suggested_sql ''T'' [''A''] ''1=1'' ''ORDER BY A DESC'' ''TOP 5'' =
        ''SELECT '' @ ''TOP 5'' @ '' ''
          @ (if [''A''] \<noteq> [] then join '', '' [''A''] else ''*'') @ '' FROM '' @ ''T''
          @ (if ''1=1'' \<noteq> ''1=1'' then '' WHERE '' @ ''1=1'' else [])
          @ (if ''ORDER BY A DESC'' \<noteq> [] then '' '' @ ''ORDER BY A DESC'' else [])"
    using conjunct2 [OF conjunct2 [OF conjunct2 [OF conjunct2 [OF conjunct2 [OF conjunct2
            [OF conjunct2 [OF conjunct2 [OF v]]]]]]]] no_second_select
    by (rule mp)
  then show "suggested_sql ''T'' [''A''] ''1=1'' ''ORDER BY A DESC'' ''TOP 5''
        = ''SELECT TOP 5 A FROM T ORDER BY A DESC''"
    by simp
qed

section \<open>Parsing with fallback\<close>

lemma fallback_no_tables:
  "get_enabled_tables schema = [] \<Longrightarrow>
     fallback_rule_based_parsing schema q = ParseFailed ''No enabled tables found''"
  by (simp add: fallback_rule_based_parsing_def)

lemma fallback_with_tables:
  assumes "get_enabled_tables schema \<noteq> []"
  shows "\<exists>r. fallback_rule_based_parsing schema q = RuleBased r
           \<and> fallback_used r \<and> \<not> ai_parsed r
           \<and> where_clause r =
               (if str_in ''this month'' (lower q) then this_month_clause else ''1=1'')"
proof -
  obtain k t rest where "get_enabled_tables schema = (k, t) # rest"
    using assms by (cases "get_enabled_tables schema") auto
  then show ?thesis
    by (simp add: fallback_rule_based_parsing_def Let_def)
qed

lemma parse_with_ai_failures:
  "\<not> ai_accepted (parse_with_ai use_ai schema (TransportFailure e) q)"
  "\<not> ai_accepted (parse_with_ai use_ai schema (InvalidJSON e) q)"
  "\<not> ai_accepted (parse_with_ai use_ai schema (NotAnObject e) q)"
  "\<not> ai_accepted (parse_with_ai False schema backend q)"
  by (simp_all add: parse_with_ai_def ai_accepted_def)

lemma threshold_below: "threshold \<le> 7 / 10"
  by (simp add: threshold_def)

text \<open>
  C8, as the code has it. Unless AI parsing is in use, \<open>asyncio.run\<close> returns, and the AI
  result has no error field and a confidence that passes \<open>>= 0.7\<close>, \<open>parse_user_query\<close>
  returns what the rule-based parser returns; a transport failure, a reply that is not JSON
  and a reply that is not an object are never accepted. An AI result is returned directly
  only when it has no error field and its confidence passes. The rule-based result carries
  \<open>fallback_used = True\<close> and \<open>ai_parsed = False\<close> when at least one table is enabled; with no
  enabled table it is the error dict \<open>No enabled tables found\<close>, which carries neither flag.
  A numeric confidence passes exactly when it is at least the double \<open>0.7\<close>; every value
  from seven tenths on does, and a missing confidence does not.
\<close>

theorem parse_user_query_gate:
  "(\<not> (use_ai \<and> \<not> run_raises \<and> ai_accepted (parse_with_ai use_ai schema backend q)) \<longrightarrow>
      parse_user_query use_ai run_raises schema backend q = fallback_rule_based_parsing schema q)
 \<and> (parse_user_query use_ai run_raises schema backend q = FromAI r q' \<longrightarrow>
      use_ai \<and> parse_with_ai use_ai schema backend q = AIParsed r q'
      \<and> ai_error r = None \<and> confidence_ok (ai_confidence r))
 \<and> (use_ai \<and> \<not> run_raises \<and> ai_accepted (parse_with_ai use_ai schema backend q) \<longrightarrow>
      (\<exists>r q'. parse_user_query use_ai run_raises schema backend q = FromAI r q'))
 \<and> ((\<exists>e. backend = TransportFailure e \<or> backend = InvalidJSON e \<or> backend = NotAnObject e) \<longrightarrow>
      \<not> ai_accepted (parse_with_ai use_ai schema backend q))
 \<and> (get_enabled_tables schema \<noteq> [] \<longrightarrow>
      result_fallback_used (fallback_rule_based_parsing schema q) = Some True
      \<and> result_ai_parsed (fallback_rule_based_parsing schema q) = Some False)
 \<and> (get_enabled_tables schema = [] \<longrightarrow>
      fallback_rule_based_parsing schema q = ParseFailed ''No enabled tables found'')
 \<and> (confidence_ok (Number c) \<longleftrightarrow> threshold \<le> c)
 \<and> (7 / 10 \<le> c \<longrightarrow> confidence_ok (Number c))
 \<and> \<not> confidence_ok NoConfidence"
proof (intro conjI impI)
  assume "\<not> (use_ai \<and> \<not> run_raises \<and> ai_accepted (parse_with_ai use_ai schema backend q))"
  then show "parse_user_query use_ai run_raises schema backend q = fallback_rule_based_parsing schema q"
    by (auto simp: parse_user_query_def ai_accepted_def split: ai_result.splits)
next
  assume "parse_user_query use_ai run_raises schema backend q = FromAI r q'"
  then have a: "use_ai \<and> parse_with_ai use_ai schema backend q = AIParsed r q'
      \<and> ai_error r = None \<and> confidence_ok (ai_confidence r)"
    by (cases "get_enabled_tables schema")
       (auto simp: parse_user_query_def fallback_rule_based_parsing_def Let_def
             split: if_splits ai_result.splits)
  show "use_ai" using a by blast
  show "parse_with_ai use_ai schema backend q = AIParsed r q'" using a by blast
  show "ai_error r = None" using a by blast
  show "confidence_ok (ai_confidence r)" using a by blast
next
  assume "use_ai \<and> \<not> run_raises \<and> ai_accepted (parse_with_ai use_ai schema backend q)"
  then show "\<exists>r q'. parse_user_query use_ai run_raises schema backend q = FromAI r q'"
    by (auto simp: parse_user_query_def ai_accepted_def split: ai_result.splits)
next
  assume "\<exists>e. backend = TransportFailure e \<or> backend = InvalidJSON e \<or> backend = NotAnObject e"
  then show "\<not> ai_accepted (parse_with_ai use_ai schema backend q)"
    using parse_with_ai_failures by blast
next
  assume t: "get_enabled_tables schema \<noteq> []"
  from fallback_with_tables [OF t, of q]
  show "result_fallback_used (fallback_rule_based_parsing schema q) = Some True"
    by auto
  from fallback_with_tables [OF t, of q]
  show "result_ai_parsed (fallback_rule_based_parsing schema q) = Some False"
    by auto
next
  assume "get_enabled_tables schema = []"
  then show "fallback_rule_based_parsing schema q = ParseFailed ''No enabled tables found''"
    by (rule fallback_no_tables)
next
  show "confidence_ok (Number c) \<longleftrightarrow> threshold \<le> c" by simp
next
  assume "7 / 10 \<le> c"
  then show "confidence_ok (Number c)" using threshold_below by simp
next
  show "\<not> confidence_ok NoConfidence" by (simp add: threshold_def)
qed

text \<open>
  C9, as the code has it. With at least one enabled table, the rule-based parser produces
  the WHERE clause \<open>Month LIKE '2025-08%'\<close>, a constant of the source that does not depend on
  the date of the call, exactly when the lower-cased text contains \<open>this month\<close>, and \<open>1=1\<close>
  otherwise. With no enabled table it returns the error dict, which has no WHERE clause.
\<close>

theorem fallback_where_clause:
  "(get_enabled_tables schema \<noteq> [] \<longrightarrow>
      result_where_clause (fallback_rule_based_parsing schema q) =
        Some (if str_in ''this month'' (lower q) then this_month_clause else ''1=1''))
 \<and> (get_enabled_tables schema = [] \<longrightarrow>
      result_where_clause (fallback_rule_based_parsing schema q) = None)
 \<and> this_month_clause =
      [CHR ''M'', CHR ''o'', CHR ''n'', CHR ''t'', CHR ''h'', CHR '' '', CHR ''L'', CHR ''I'',
       CHR ''K'', CHR ''E'', CHR '' '', CHR 0x27, CHR ''2'', CHR ''0'', CHR ''2'', CHR ''5'',
       CHR ''-'', CHR ''0'', CHR ''8'', CHR ''%'', CHR 0x27]"
proof (intro conjI impI)
  assume t: "get_enabled_tables schema \<noteq> []"
  from fallback_with_tables [OF t, of q]
  show "result_where_clause (fallback_rule_based_parsing schema q) =
        Some (if str_in ''this month'' (lower q) then this_month_clause else ''1=1'')"
    by auto
next
  assume "get_enabled_tables schema = []"
  then show "result_where_clause (fallback_rule_based_parsing schema q) = None"
    by (simp add: fallback_no_tables)
next
  show "this_month_clause =
      [CHR ''M'', CHR ''o'', CHR ''n'', CHR ''t'', CHR ''h'', CHR '' '', CHR ''L'', CHR ''I'',
       CHR ''K'', CHR ''E'', CHR '' '', CHR 0x27, CHR ''2'', CHR ''0'', CHR ''2'', CHR ''5'',
       CHR ''-'', CHR ''0'', CHR ''8'', CHR ''%'', CHR 0x27]"
    by (simp add: this_month_clause_def)
qed

text \<open>
  C8 as stated fails when no table is enabled: after a failed AI attempt the result is the
  error dict of the rule-based parser, without \<open>fallback_used\<close> and \<open>ai_parsed\<close>.
\<close>

theorem fallback_without_tables_counterexample:
  "parse_user_query True False empty_schema (TransportFailure ''timed out'') ''top 5 products''
     = ParseFailed ''No enabled tables found''
   \<and> result_fallback_used
        (parse_user_query True False empty_schema (TransportFailure ''timed out'')
           ''top 5 products'') = None
   \<and> result_ai_parsed
        (parse_user_query True False empty_schema (TransportFailure ''timed out'')
           ''top 5 products'') = None"
  by (simp add: parse_user_query_def parse_with_ai_def fallback_rule_based_parsing_def
        empty_schema_def)

lemma example_tables: "get_enabled_tables example_schema \<noteq> []"
  by (simp add: example_schema_def)

lemma low_confidence_rejected:
  "\<not> (True \<and> \<not> False \<and>
       ai_accepted (parse_with_ai True example_schema (Object (example_reply (Number (2 / 5))))
                      ''top 5''))"
  by (simp add: ai_accepted_def parse_with_ai_def example_reply_def example_schema_def
        usage_table_def threshold_def)

lemma high_confidence_accepted:
  "True \<and> \<not> False \<and>
     ai_accepted (parse_with_ai True example_schema (Object (example_reply (Number (9 / 10))))
                    ''top 5'')"
  by (simp add: ai_accepted_def parse_with_ai_def example_reply_def example_schema_def
        usage_table_def threshold_def strip_def isspace_def)

text \<open>A reply with confidence 0.4, which falls back, and one with confidence 0.9, which is returned.\<close>

theorem parse_user_query_gate_witness:
  "result_fallback_used
     (parse_user_query True False example_schema (Object (example_reply (Number (2 / 5))))
        ''top 5'') = Some True
   \<and> result_ai_parsed
     (parse_user_query True False example_schema (Object (example_reply (Number (2 / 5))))
        ''top 5'') = Some False
   \<and> (\<exists>r q'. parse_user_query True False example_schema
                 (Object (example_reply (Number (9 / 10)))) ''top 5'' = FromAI r q')"
proof -
  note t = parse_user_query_gate [of True False example_schema
      "Object (example_reply (Number (2 / 5)))" "''top 5''"]
  have e: "parse_user_query True False example_schema (Object (example_reply (Number (2 / 5))))
        ''top 5'' = fallback_rule_based_parsing example_schema ''top 5''"
    using conjunct1 [OF t] low_confidence_rejected by (rule mp)
  have f: "result_fallback_used (fallback_rule_based_parsing example_schema ''top 5'') = Some True
      \<and> result_ai_parsed (fallback_rule_based_parsing example_schema ''top 5'') = Some False"
    using conjunct1 [OF conjunct2 [OF conjunct2 [OF conjunct2 [OF conjunct2 [OF t]]]]]
      example_tables by (rule mp)
  note u = parse_user_query_gate [of True False example_schema
      "Object (example_reply (Number (9 / 10)))" "''top 5''"]
  have g: "\<exists>r q'. parse_user_query True False example_schema
                 (Object (example_reply (Number (9 / 10)))) ''top 5'' = FromAI r q'"
    using conjunct1 [OF conjunct2 [OF conjunct2 [OF u]]] high_confidence_accepted by (rule mp)
  show ?thesis using f g by (simp only: e simp_thms)
qed

lemma str_nat_2026: "str_nat 2026 = ''2026''"
  by (simp add: str_nat.simps [of 2026] str_nat.simps [of 202] str_nat.simps [of 20]
        str_nat.simps [of 2] digit_char_def)

lemma str_nat_11: "str_nat 11 = ''11''"
  by (simp add: str_nat.simps [of 11] str_nat.simps [of "Suc 0"] digit_char_def)

lemma this_month_found: "str_in ''this month'' (lower ''Usage This Month'')"
  by (simp add: lower_def lower_char_def is_upper_def)

lemma this_month_not_found: "\<not> str_in ''this month'' (lower ''usage'')"
  by (simp add: lower_def lower_char_def is_upper_def)

text \<open>
  C9 as stated fails: for a call in November 2026 the specification's clause is
  \<open>Month LIKE '2026-11%'\<close>, the code's is \<open>Month LIKE '2025-08%'\<close>; and with no enabled table
  there is no clause at all.
\<close>

theorem fallback_where_clause_counterexample:
  "result_where_clause (fallback_rule_based_parsing example_schema ''Usage This Month'')
     = Some this_month_clause
   \<and> spec_month_clause 2026 11 = ''Month LIKE '' @ [CHR 0x27] @ ''2026-11%'' @ [CHR 0x27]
   \<and> this_month_clause \<noteq> spec_month_clause 2026 11
   \<and> result_where_clause (fallback_rule_based_parsing empty_schema ''Usage This Month'') = None"
proof (intro conjI)
  show "result_where_clause (fallback_rule_based_parsing example_schema ''Usage This Month'')
     = Some this_month_clause"
    using this_month_found
    by (simp add: fallback_rule_based_parsing_def example_schema_def Let_def)
  show "spec_month_clause 2026 11 = ''Month LIKE '' @ [CHR 0x27] @ ''2026-11%'' @ [CHR 0x27]"
    by (simp add: spec_month_clause_def str_nat_2026 str_nat_11)
  show "this_month_clause \<noteq> spec_month_clause 2026 11"
    by (simp add: spec_month_clause_def str_nat_2026 str_nat_11 this_month_clause_def)
  show "result_where_clause (fallback_rule_based_parsing empty_schema ''Usage This Month'') = None"
    by (simp add: fallback_rule_based_parsing_def empty_schema_def)
qed

lemma fallback_example:
  "fallback_rule_based_parsing example_schema ''Top 10 products this month'' =
     RuleBased \<lparr>table_name = ''ProductUsage'',
                columns = [''Month'', ''Product'', ''RequestCount''],
                where_clause = this_month_clause,
                order_clause = ''ORDER BY RequestCount DESC'',
                limit_clause = ''TOP 10'', ai_parsed = False, fallback_used = True\<rparr>"
proof -
  have l: "lower ''Top 10 products this month'' = ''top 10 products this month''"
    by (simp add: lower_def lower_char_def is_upper_def)
  show ?thesis
    by (simp add: fallback_rule_based_parsing_def example_schema_def usage_table_def l
          match_top_def isspace_def isdigit_def)
qed

text \<open>A text with \<open>this month\<close> in mixed case, and one without it.\<close>

theorem fallback_where_clause_witness:
  "result_where_clause (fallback_rule_based_parsing example_schema ''Usage This Month'')
     = Some this_month_clause
   \<and> result_where_clause (fallback_rule_based_parsing example_schema ''usage'') = Some ''1=1''"
proof (intro conjI)
  note t = fallback_where_clause [of example_schema "''Usage This Month''"]
  show "result_where_clause (fallback_rule_based_parsing example_schema ''Usage This Month'')
     = Some this_month_clause"
    using mp [OF conjunct1 [OF t] example_tables] this_month_found by (simp only: if_True)
  note u = fallback_where_clause [of example_schema "''usage''"]
  show "result_where_clause (fallback_rule_based_parsing example_schema ''usage'') = Some ''1=1''"
    using mp [OF conjunct1 [OF u] example_tables] this_month_not_found by (simp only: if_False)
qed

section \<open>String-valued alias tables\<close>

lemma string_values_chars:
  assumes "\<forall>(k, v) \<in> set al. \<exists>s. v = JStr s"
  shows "(\<Union>(k, v) \<in> set al. if str_in k q then set (iterate v) else {}) =
           {[ch] |ch k s. (k, JStr s) \<in> set al \<and> str_in k q \<and> ch \<in> set s}"
proof (rule set_eqI, rule iffI)
  fix x assume "x \<in> (\<Union>(k, v) \<in> set al. if str_in k q then set (iterate v) else {})"
  then obtain k v where kv: "(k, v) \<in> set al" "str_in k q" "x \<in> set (iterate v)"
    by (auto split: if_splits)
  from assms kv(1) obtain s where s: "v = JStr s" by auto
  from kv(3) s obtain ch where "ch \<in> set s" "x = [ch]" by auto
  with kv(1,2) s show "x \<in> {[ch] |ch k s. (k, JStr s) \<in> set al \<and> str_in k q \<and> ch \<in> set s}"
    by blast
next
  fix x assume "x \<in> {[ch] |ch k s. (k, JStr s) \<in> set al \<and> str_in k q \<and> ch \<in> set s}"
  then obtain ch k s where h: "x = [ch]" "(k, JStr s) \<in> set al" "str_in k q" "ch \<in> set s"
    by blast
  have "x \<in> (case (k, JStr s) of (k, v) \<Rightarrow> if str_in k q then set (iterate v) else {})"
    using h by simp
  with h(2) show "x \<in> (\<Union>(k, v) \<in> set al. if str_in k q then set (iterate v) else {})"
    by blast
qed

lemma getattr_time: "getattr_aliases e ''time'' = Table (time_aliases e)"
  by (simp add: getattr_aliases_def)

lemma getattr_quantity: "getattr_aliases e ''quantity'' = Table (quantity_aliases e)"
  by (simp add: getattr_aliases_def)

lemma builtin_time_strings: "\<forall>(k, v) \<in> set builtin_time_aliases. \<exists>s. v = JStr s"
  by (simp add: builtin_time_aliases_def)

lemma builtin_quantity_strings: "\<forall>(k, v) \<in> set builtin_quantity_aliases. \<exists>s. v = JStr s"
  by (simp add: builtin_quantity_aliases_def)

text \<open>
  C10. Where every value of the alias table is a single string, \<open>find_matches\<close> returns the
  one-character strings made of the characters of the values whose alias occurs in the
  text, not the values themselves. The time and the quantity table of
  \<open>EnhancedAliasMapper\<close> are such tables.
\<close>

theorem find_matches_splits_string_values:
  "(getattr_aliases e c = Table al \<and> (\<forall>(k, v) \<in> set al. \<exists>s. v = JStr s) \<longrightarrow>
      find_matches e text c =
        Inr {[ch] |ch k s. (k, JStr s) \<in> set al \<and> str_in k (lower text) \<and> ch \<in> set s})
 \<and> getattr_aliases enhanced_init ''time'' = Table builtin_time_aliases
 \<and> (\<forall>(k, v) \<in> set builtin_time_aliases. \<exists>s. v = JStr s)
 \<and> getattr_aliases enhanced_init ''quantity'' = Table builtin_quantity_aliases
 \<and> (\<forall>(k, v) \<in> set builtin_quantity_aliases. \<exists>s. v = JStr s)"
proof (intro conjI impI)
  assume h: "getattr_aliases e c = Table al \<and> (\<forall>(k, v) \<in> set al. \<exists>s. v = JStr s)"
  have "find_matches e text c =
          Inr (\<Union>(k, v) \<in> set al. if str_in k (lower text) then set (iterate v) else {})"
    using h by (simp add: find_matches_def extend_matches_set)
  also have "\<dots> = Inr {[ch] |ch k s. (k, JStr s) \<in> set al \<and> str_in k (lower text) \<and> ch \<in> set s}"
    using string_values_chars [OF conjunct2 [OF h]] by (simp only:)
  finally show "find_matches e text c =
        Inr {[ch] |ch k s. (k, JStr s) \<in> set al \<and> str_in k (lower text) \<and> ch \<in> set s}" .
next
  show "getattr_aliases enhanced_init ''time'' = Table builtin_time_aliases"
    by (simp add: getattr_time enhanced_init_def)
  show "\<forall>(k, v) \<in> set builtin_time_aliases. \<exists>s. v = JStr s" by (rule builtin_time_strings)
  show "getattr_aliases enhanced_init ''quantity'' = Table builtin_quantity_aliases"
    by (simp add: getattr_quantity enhanced_init_def)
  show "\<forall>(k, v) \<in> set builtin_quantity_aliases. \<exists>s. v = JStr s"
    by (rule builtin_quantity_strings)
qed

lemma lower_top_10: "lower ''top 10'' = ''top 10''"
  by (simp add: lower_def lower_char_def is_upper_def)

lemma top_10_matches:
  "find_matches enhanced_init ''top 10'' ''quantity'' = Inr {''T'', ''O'', ''P''}"
  by (simp add: find_matches_def getattr_quantity enhanced_init_def extend_matches_def
        builtin_quantity_aliases_def lower_top_10)

text \<open>\<open>top 10\<close> in the quantity category gives the letters of \<open>TOP\<close>.\<close>

theorem find_matches_splits_string_values_witness:
  "find_matches enhanced_init ''top 10'' ''quantity'' = Inr {''T'', ''O'', ''P''}
   \<and> {''T'', ''O'', ''P''} =
       {[ch] |ch k s. (k, JStr s) \<in> set builtin_quantity_aliases
                       \<and> str_in k (lower ''top 10'') \<and> ch \<in> set s}
   \<and> map_of builtin_quantity_aliases ''top'' = Some (JStr ''TOP'')
   \<and> ''TOP'' \<notin> {''T'', ''O'', ''P''}"
proof (intro conjI)
  show a: "find_matches enhanced_init ''top 10'' ''quantity'' = Inr {''T'', ''O'', ''P''}"
    by (rule top_10_matches)
  note t = find_matches_splits_string_values [of enhanced_init "''quantity''"
      builtin_quantity_aliases "''top 10''"]
  have h: "getattr_aliases enhanced_init ''quantity'' = Table builtin_quantity_aliases
      \<and> (\<forall>(k, v) \<in> set builtin_quantity_aliases. \<exists>s. v = JStr s)"
    using t by blast
  have b: "find_matches enhanced_init ''top 10'' ''quantity'' =
        Inr {[ch] |ch k s. (k, JStr s) \<in> set builtin_quantity_aliases
                            \<and> str_in k (lower ''top 10'') \<and> ch \<in> set s}"
    using conjunct1 [OF t] h by (rule mp)
  show "{''T'', ''O'', ''P''} =
       {[ch] |ch k s. (k, JStr s) \<in> set builtin_quantity_aliases
                       \<and> str_in k (lower ''top 10'') \<and> ch \<in> set s}"
    using a b by (simp only: sum.inject)
  show "map_of builtin_quantity_aliases ''top'' = Some (JStr ''TOP'')"
    by (simp add: builtin_quantity_aliases_def)
  show "''TOP'' \<notin> {''T'', ''O'', ''P''}" by simp
qed

end
